theory Spec2Isabelle
  imports Main "HOL-Library.Word"
begin

unbundle bit_operations_syntax

section \<open>The a3xx shader compiler front end (fd3\_compiler.c)\<close>

text \<open>
  The development embeds the lowering pass of \<^verbatim>\<open>fd3_compiler.c\<close>: the compile context,
  the instruction emitter with its deferred-write queue, the SSA resolver over the chain
  of nested blocks, the vectorizer, the immediate pool and the phi synthesis at ENDIF.

  Pointers are indices: an \<^verbatim>\<open>ir3_instruction *\<close> is the position of the instruction in
  the shader's instruction list (\<open>None\<close> is \<^verbatim>\<open>NULL\<close>), an \<^verbatim>\<open>ir3_block *\<close> is the
  position of the block in the list of blocks, an \<^verbatim>\<open>ir3_register *\<close> is an instruction
  together with a position in its operand list. A function that changes the context
  takes it and returns the new one.
\<close>

subsection \<open>Outcomes\<close>

text \<open>
  \<open>Compile_error\<close> is \<^verbatim>\<open>compile_error()\<close> (also reached through
  \<^verbatim>\<open>compile_assert\<close>): the shader is dumped and \<^verbatim>\<open>debug_assert(0)\<close> stops the compile.
  \<open>Undefined_behaviour\<close> marks what the C text does without any check of its own and
  the language leaves undefined: an access outside an array, a \<^verbatim>\<open>NULL\<close> or dangling
  pointer followed.
\<close>

datatype error = Compile_error | Undefined_behaviour

subsection \<open>TGSI registers\<close>

datatype tgsi_file =
    TGSI_FILE_NULL | TGSI_FILE_CONSTANT | TGSI_FILE_INPUT | TGSI_FILE_OUTPUT
  | TGSI_FILE_TEMPORARY | TGSI_FILE_SAMPLER | TGSI_FILE_ADDRESS | TGSI_FILE_IMMEDIATE
  | TGSI_FILE_PREDICATE | TGSI_FILE_SYSTEM_VALUE | TGSI_FILE_RESOURCE
  | TGSI_FILE_SAMPLER_VIEW

text \<open>
  The fields shared by \<^verbatim>\<open>tgsi_src_register\<close> and \<^verbatim>\<open>tgsi_dst_register\<close> form the base
  record. \<open>Index\<close> is a register number of a directly addressed register, hence a
  natural number; swizzles are component numbers 0..3, a write-mask is a 4-bit set.
\<close>

record tgsi_register =
  File :: tgsi_file
  Indirect :: bool
  Dimension :: bool
  Index :: nat

record tgsi_src_register = tgsi_register +
  Absolute :: bool
  Negate :: bool
  SwizzleX :: nat
  SwizzleY :: nat
  SwizzleZ :: nat
  SwizzleW :: nat

record tgsi_dst_register = tgsi_register +
  WriteMask :: nat

definition TGSI_SWIZZLE_X :: nat where "TGSI_SWIZZLE_X = 0"
definition TGSI_SWIZZLE_Y :: nat where "TGSI_SWIZZLE_Y = 1"
definition TGSI_SWIZZLE_Z :: nat where "TGSI_SWIZZLE_Z = 2"
definition TGSI_SWIZZLE_W :: nat where "TGSI_SWIZZLE_W = 3"
definition TGSI_WRITEMASK_XYZW :: nat where "TGSI_WRITEMASK_XYZW = 15"

datatype tgsi_processor = TGSI_PROCESSOR_FRAGMENT | TGSI_PROCESSOR_VERTEX

datatype tgsi_parse_result = TGSI_PARSE_OK | TGSI_PARSE_ERROR

text \<open>What \<^verbatim>\<open>tgsi_scan_shader\<close> hands over: the highest index used in each file
  (\<open>-1\<close> for a file that is not used) and the files addressed indirectly.\<close>

record tgsi_shader_info =
  file_max :: "tgsi_file \<Rightarrow> int"
  indirect_files :: "tgsi_file set"

subsection \<open>The ir3 graph\<close>

datatype ir3_reg_flag =
    IR3_REG_CONST | IR3_REG_IMMED | IR3_REG_HALF | IR3_REG_RELATIV | IR3_REG_R
  | IR3_REG_NEGATE | IR3_REG_ABS | IR3_REG_EVEN | IR3_REG_POS_INF | IR3_REG_EI
  | IR3_REG_SSA | IR3_REG_IA

datatype type_t = TYPE_F16 | TYPE_F32 | TYPE_U16 | TYPE_U32 | TYPE_S16 | TYPE_S32

text \<open>The opcodes the modelled routines name; \<open>OPC_ZERO\<close> is the literal \<^verbatim>\<open>0\<close> that
  the category 1 moves pass as their opcode.\<close>

datatype opc_t =
    OPC_ZERO | OPC_ABSNEG_F | OPC_ADD_F | OPC_ADD_S | OPC_MUL_F | OPC_MAX_F | OPC_MIN_F
  | OPC_CMPS_F | OPC_SAM | OPC_ABSNEG_S | OPC_CLZ_B | OPC_CLZ_S | OPC_SIGN_F | OPC_FLOOR_F
  | OPC_CEIL_F | OPC_RNDNE_F | OPC_RNDAZ_F | OPC_TRUNC_F | OPC_NOT_B | OPC_BFREV_B
  | OPC_SETRM | OPC_CBITS_B
  | OPC_META_INPUT | OPC_META_OUTPUT | OPC_META_FO | OPC_META_FI | OPC_META_FLOW
  | OPC_META_PHI

datatype ir3_cond = IR3_COND_LT | IR3_COND_LE | IR3_COND_GT | IR3_COND_GE | IR3_COND_EQ
  | IR3_COND_NE

record ir3_register =
  flags :: "ir3_reg_flag set"
  num :: nat
  wrmask :: nat
  instr :: "nat option"
  iim_val :: int
  fim_val :: "32 word"

record ir3_instruction =
  instr_block :: nat
  category :: int
  opc :: opc_t
  regs :: "ir3_register list"
  cat1_src_type :: "type_t option"
  cat1_dst_type :: "type_t option"
  cat2_condition :: "ir3_cond option"
  fo_off :: nat
  flow_if_block :: "nat option"
  flow_else_block :: "nat option"
  inout_block :: "nat option"

text \<open>A block: the parent link and the three arrays of live values, indexed by
  flattened register number. \<^verbatim>\<open>ntemporaries\<close>, \<^verbatim>\<open>ninputs\<close> and \<^verbatim>\<open>noutputs\<close> are the
  lengths of the lists.\<close>

record ir3_block =
  parent :: "nat option"
  temporaries :: "nat option list"
  inputs :: "nat option list"
  outputs :: "nat option list"

subsection \<open>The compile context\<close>

datatype shader_t = SHADER_VERTEX | SHADER_FRAGMENT

record fd3_shader_stateobj =
  so_type :: shader_t
  half_precision :: bool
  first_immediate :: nat
  immediates :: "32 word list"
  immediates_count :: nat

text \<open>
  \<open>immediates\<close> is \<^verbatim>\<open>so->immediates[idx].val[swiz]\<close> flattened: component \<open>swiz\<close> of slot
  \<open>idx\<close> is at position \<open>4 * idx + swiz\<close>; its length is four times the capacity of the
  pool.

  A target of a deferred write (\<^verbatim>\<open>instrp\<close>) is a slot of a block's \<^verbatim>\<open>outputs\<close> or
  \<^verbatim>\<open>temporaries\<close> array.
\<close>

datatype slot = Output_slot nat nat | Temporary_slot nat nat

datatype dst_ref = Inst_dst | Tmp_dst

record fd3_compile_context =
  so :: fd3_shader_stateobj
  shader_instrs :: "ir3_instruction list"
  shader_blocks :: "ir3_block list"
  block :: "nat option"
  current_instr :: "nat option"
  output_updates :: "(slot \<times> nat) list"
  atomic :: bool
  type :: tgsi_processor
  info :: tgsi_shader_info
  next_inloc :: nat
  num_internal_temps :: nat
  internal_temps :: "tgsi_src_register list"
  base_reg :: "tgsi_file \<Rightarrow> nat"
  immediate_idx :: nat
  branch :: "nat option list"
  branch_count :: nat
  tmp_dst :: tgsi_dst_register
  tmp_src :: "nat option"

text \<open>The length of \<open>output_updates\<close> is \<^verbatim>\<open>num_output_updates\<close>; the array behind it
  has 16 entries, \<open>internal_temps\<close> has 6, \<open>branch\<close> has 16.\<close>

definition OUTPUT_UPDATES_SIZE :: nat where "OUTPUT_UPDATES_SIZE = 16"
definition INTERNAL_TEMPS_SIZE :: nat where "INTERNAL_TEMPS_SIZE = 6"
definition BRANCH_SIZE :: nat where "BRANCH_SIZE = 16"

text \<open>Unsigned 32-bit arithmetic on values computed from the signed \<open>file_max\<close>.\<close>

definition u32 :: "int \<Rightarrow> nat" where
  "u32 x = nat (x mod 2 ^ 32)"

text \<open>Modelled from the spec: the macro \<^verbatim>\<open>regid\<close> of instr-a3xx.h, which is not among
  the sources: the component sits in the low two bits of a register number.\<close>

definition regid :: "nat \<Rightarrow> nat \<Rightarrow> nat" where
  "regid n chan = push_bit 2 n OR (chan AND 3)"

subsection \<open>compile\_init\<close>

definition null_src :: tgsi_src_register where
  "null_src = \<lparr>File = TGSI_FILE_NULL, Indirect = False, Dimension = False, Index = 0,
     Absolute = False, Negate = False, SwizzleX = 0, SwizzleY = 0, SwizzleZ = 0,
     SwizzleW = 0\<rparr>"

definition null_dst :: tgsi_dst_register where
  "null_dst = \<lparr>File = TGSI_FILE_NULL, Indirect = False, Dimension = False, Index = 0,
     WriteMask = 0\<rparr>"

text \<open>The context as \<^verbatim>\<open>compile_init\<close> leaves it before it looks at the scan: the
  counters reset, \<^verbatim>\<open>base_reg\<close> cleared by \<^verbatim>\<open>memset\<close>.\<close>

definition cleared_context ::
  "fd3_shader_stateobj \<Rightarrow> tgsi_shader_info \<Rightarrow> tgsi_processor \<Rightarrow> fd3_compile_context" where
  "cleared_context s i p =
     \<lparr>so = s, shader_instrs = [], shader_blocks = [], block = None, current_instr = None,
      output_updates = [], atomic = False, type = p, info = i, next_inloc = 8,
      num_internal_temps = 0, internal_temps = replicate 6 null_src,
      base_reg = (\<lambda>f. 0), immediate_idx = 0, branch = replicate 16 None,
      branch_count = 0, tmp_dst = null_dst, tmp_src = None\<rparr>"

definition relocated_files :: "tgsi_file set" where
  "relocated_files = {TGSI_FILE_TEMPORARY, TGSI_FILE_INPUT, TGSI_FILE_OUTPUT,
     TGSI_FILE_IMMEDIATE, TGSI_FILE_CONSTANT}"

text \<open>
  \<^verbatim>\<open>compile_init\<close>. The scan of the tokens (\<^verbatim>\<open>tgsi_scan_shader\<close>), the outcome of
  \<^verbatim>\<open>tgsi_parse_init\<close> and the processor named in the token header come from the TGSI
  library and are arguments here.
\<close>

definition compile_init ::
  "fd3_shader_stateobj \<Rightarrow> tgsi_shader_info \<Rightarrow> tgsi_parse_result \<Rightarrow> tgsi_processor
     \<Rightarrow> tgsi_parse_result \<times> fd3_compile_context" where
  "compile_init s i parse_ret proc =
     (let ctx = cleared_context s i proc in
      if indirect_files i \<inter> relocated_files \<noteq> {} then (TGSI_PARSE_ERROR, ctx)
      else
        let base = (if so_type s = SHADER_FRAGMENT \<and> \<not> half_precision s then 1 else 0);
            br = (base_reg ctx)
              (TGSI_FILE_CONSTANT := 0,
               TGSI_FILE_IMMEDIATE := u32 (file_max i TGSI_FILE_CONSTANT + 1),
               TGSI_FILE_INPUT := base,
               TGSI_FILE_OUTPUT := u32 (int base + file_max i TGSI_FILE_INPUT + 1),
               TGSI_FILE_TEMPORARY :=
                 u32 (int base + file_max i TGSI_FILE_INPUT + 1
                        + file_max i TGSI_FILE_OUTPUT + 1));
            ctx' = ctx\<lparr>base_reg := br,
                      so := (so ctx)\<lparr>first_immediate := br TGSI_FILE_IMMEDIATE\<rparr>,
                      immediate_idx := u32 (4 * (file_max i TGSI_FILE_IMMEDIATE + 1))\<rparr>
        in (parse_ret, ctx'))"

text \<open>
  Where a register of a file lands. Constants and immediates are operands flagged
  \<^verbatim>\<open>IR3_REG_CONST\<close> (see \<^verbatim>\<open>add_src_reg_wrmask\<close>) and live in the constant bank; inputs,
  outputs and temporaries are general purpose registers. A file with highest index
  \<open>file_max\<close> occupies the registers \<open>base_reg .. base_reg + file_max\<close> of its bank.
\<close>

datatype bank = Const_bank | Gpr_bank

definition file_bank :: "tgsi_file \<Rightarrow> bank" where
  "file_bank f = (if f = TGSI_FILE_CONSTANT \<or> f = TGSI_FILE_IMMEDIATE then Const_bank
                  else Gpr_bank)"

definition file_range :: "fd3_compile_context \<Rightarrow> tgsi_file \<Rightarrow> (bank \<times> nat) set" where
  "file_range ctx f =
     {file_bank f} \<times> {base_reg ctx f ..< base_reg ctx f + nat (file_max (info ctx) f + 1)}"

definition reserved_prefix :: "fd3_shader_stateobj \<Rightarrow> nat" where
  "reserved_prefix s = (if so_type s = SHADER_FRAGMENT \<and> \<not> half_precision s then 1 else 0)"


subsection \<open>The ir3 library\<close>

definition array_get :: "'a list \<Rightarrow> nat \<Rightarrow> error + 'a" where
  "array_get xs n = (if n < length xs then Inr (xs ! n) else Inl Undefined_behaviour)"

definition new_instruction :: "nat \<Rightarrow> int \<Rightarrow> opc_t \<Rightarrow> ir3_instruction" where
  "new_instruction b cat op =
     \<lparr>instr_block = b, category = cat, opc = op, regs = [], cat1_src_type = None,
      cat1_dst_type = None, cat2_condition = None, fo_off = 0, flow_if_block = None, flow_else_block = None,
      inout_block = None\<rparr>"

definition new_register :: "nat \<Rightarrow> ir3_reg_flag set \<Rightarrow> ir3_register" where
  "new_register n fl = \<lparr>flags = fl, num = n, wrmask = 1, instr = None, iim_val = 0,
     fim_val = 0\<rparr>"

definition upd_instr ::
  "fd3_compile_context \<Rightarrow> nat \<Rightarrow> (ir3_instruction \<Rightarrow> ir3_instruction)
     \<Rightarrow> fd3_compile_context" where
  "upd_instr ctx i f = ctx\<lparr>shader_instrs := (shader_instrs ctx)[i := f (shader_instrs ctx ! i)]\<rparr>"

definition upd_reg ::
  "fd3_compile_context \<Rightarrow> nat \<times> nat \<Rightarrow> (ir3_register \<Rightarrow> ir3_register)
     \<Rightarrow> fd3_compile_context" where
  "upd_reg ctx reg f =
     upd_instr ctx (fst reg) (\<lambda>x. x\<lparr>regs := (regs x)[snd reg := f (regs x ! snd reg)]\<rparr>)"

definition get_reg :: "fd3_compile_context \<Rightarrow> nat \<times> nat \<Rightarrow> ir3_register" where
  "get_reg ctx reg = regs (shader_instrs ctx ! fst reg) ! snd reg"

definition upd_block ::
  "fd3_compile_context \<Rightarrow> nat \<Rightarrow> (ir3_block \<Rightarrow> ir3_block) \<Rightarrow> fd3_compile_context" where
  "upd_block ctx b f = ctx\<lparr>shader_blocks := (shader_blocks ctx)[b := f (shader_blocks ctx ! b)]\<rparr>"

text \<open>Modelled from the spec: \<^verbatim>\<open>ir3_instr_create\<close> of ir3.c, which is not among the
  sources: a new instruction without operands, owned by the block that created it and
  appended to the shader's instructions.\<close>

definition ir3_instr_create ::
  "fd3_compile_context \<Rightarrow> nat \<Rightarrow> int \<Rightarrow> opc_t \<Rightarrow> nat \<times> fd3_compile_context" where
  "ir3_instr_create ctx b cat op =
     (length (shader_instrs ctx),
      ctx\<lparr>shader_instrs := shader_instrs ctx @ [new_instruction b cat op]\<rparr>)"

text \<open>Modelled from the spec: \<^verbatim>\<open>ir3_instr_clone\<close> of ir3.c, which is not among the
  sources: a new instruction in the same block that copies the template with its
  operand records.\<close>

definition ir3_instr_clone ::
  "fd3_compile_context \<Rightarrow> nat \<Rightarrow> nat \<times> fd3_compile_context" where
  "ir3_instr_clone ctx i =
     (length (shader_instrs ctx),
      ctx\<lparr>shader_instrs := shader_instrs ctx @ [shader_instrs ctx ! i]\<rparr>)"

text \<open>Modelled from the spec: \<^verbatim>\<open>ir3_reg_create\<close> of ir3.c, which is not among the
  sources: a new operand record with the given number and flags, appended to the
  ordered operand list of the instruction. The result is the new operand.\<close>

definition ir3_reg_create ::
  "fd3_compile_context \<Rightarrow> nat \<Rightarrow> nat \<Rightarrow> ir3_reg_flag set
     \<Rightarrow> (nat \<times> nat) \<times> fd3_compile_context" where
  "ir3_reg_create ctx i n fl =
     ((i, length (regs (shader_instrs ctx ! i))),
      upd_instr ctx i (\<lambda>x. x\<lparr>regs := regs x @ [new_register n fl]\<rparr>))"

text \<open>Modelled from the spec: \<^verbatim>\<open>ir3_block_create\<close> of ir3.c, which is not among the
  sources: a new block with empty slots for the given numbers of temporaries, inputs and
  outputs.\<close>

definition ir3_block_create ::
  "fd3_compile_context \<Rightarrow> nat \<Rightarrow> nat \<Rightarrow> nat \<Rightarrow> nat \<times> fd3_compile_context" where
  "ir3_block_create ctx ntmp nin nout =
     (length (shader_blocks ctx),
      ctx\<lparr>shader_blocks := shader_blocks ctx @
        [\<lparr>parent = None, temporaries = replicate ntmp None, inputs = replicate nin None,
          outputs = replicate nout None\<rparr>]\<rparr>)"

subsection \<open>The instruction emitter\<close>

fun apply_update :: "ir3_block list \<Rightarrow> slot \<times> nat \<Rightarrow> ir3_block list" where
  "apply_update bs (Output_slot b n, v) =
     bs[b := (bs ! b)\<lparr>outputs := (outputs (bs ! b))[n := Some v]\<rparr>]"
| "apply_update bs (Temporary_slot b n, v) =
     bs[b := (bs ! b)\<lparr>temporaries := (temporaries (bs ! b))[n := Some v]\<rparr>]"

definition instr_finish :: "fd3_compile_context \<Rightarrow> fd3_compile_context" where
  "instr_finish ctx =
     (if atomic ctx then ctx
      else ctx\<lparr>shader_blocks := foldl apply_update (shader_blocks ctx) (output_updates ctx),
               output_updates := []\<rparr>)"

definition instr_atomic_start :: "fd3_compile_context \<Rightarrow> fd3_compile_context" where
  "instr_atomic_start ctx = ctx\<lparr>atomic := True\<rparr>"

definition instr_atomic_end :: "fd3_compile_context \<Rightarrow> fd3_compile_context" where
  "instr_atomic_end ctx = instr_finish (ctx\<lparr>atomic := False\<rparr>)"

definition instr_create ::
  "fd3_compile_context \<Rightarrow> int \<Rightarrow> opc_t \<Rightarrow> error + nat \<times> fd3_compile_context" where
  "instr_create ctx cat op =
     (let ctx1 = instr_finish ctx in
      (case block ctx1 of
         None \<Rightarrow> Inl Undefined_behaviour
       | Some b \<Rightarrow>
           (case ir3_instr_create ctx1 b cat op of
              (i, ctx2) \<Rightarrow> Inr (i, ctx2\<lparr>current_instr := Some i\<rparr>))))"

definition instr_clone ::
  "fd3_compile_context \<Rightarrow> nat \<Rightarrow> nat \<times> fd3_compile_context" where
  "instr_clone ctx i =
     (let ctx1 = instr_finish ctx in
      (case ir3_instr_clone ctx1 i of
         (k, ctx2) \<Rightarrow> (k, ctx2\<lparr>current_instr := Some k\<rparr>)))"

definition SCALAR_REGS :: "fd3_compile_context \<Rightarrow> tgsi_file \<Rightarrow> nat" where
  "SCALAR_REGS ctx f = u32 (4 * (file_max (info ctx) f + 1))"

definition push_block :: "fd3_compile_context \<Rightarrow> nat \<times> fd3_compile_context" where
  "push_block ctx =
     (let ntmp = SCALAR_REGS ctx TGSI_FILE_TEMPORARY + 4 * 4;
          nin = (if block ctx = None
                 then (if type ctx = TGSI_PROCESSOR_FRAGMENT
                       then max 2 (SCALAR_REGS ctx TGSI_FILE_INPUT)
                       else SCALAR_REGS ctx TGSI_FILE_INPUT)
                 else ntmp);
          nout = SCALAR_REGS ctx TGSI_FILE_OUTPUT
      in (case ir3_block_create ctx ntmp nin nout of
            (b, ctx1) \<Rightarrow>
              (b, (upd_block ctx1 b (\<lambda>x. x\<lparr>parent := block ctx\<rparr>))\<lparr>block := Some b\<rparr>)))"

definition pop_block :: "fd3_compile_context \<Rightarrow> error + fd3_compile_context" where
  "pop_block ctx =
     (case block ctx of
        None \<Rightarrow> Inl Undefined_behaviour
      | Some b \<Rightarrow>
          (case parent (shader_blocks ctx ! b) of
             None \<Rightarrow> Inl Compile_error
           | Some p \<Rightarrow> Inr (ctx\<lparr>block := Some p\<rparr>)))"

definition ssa_dst ::
  "fd3_compile_context \<Rightarrow> nat \<Rightarrow> tgsi_dst_register \<Rightarrow> nat
     \<Rightarrow> error + fd3_compile_context" where
  "ssa_dst ctx i dst chan =
     (let n = regid (Index dst) chan in
      if \<not> length (output_updates ctx) < OUTPUT_UPDATES_SIZE then Inl Compile_error
      else if File dst = TGSI_FILE_OUTPUT then
        (case block ctx of
           None \<Rightarrow> Inl Undefined_behaviour
         | Some b \<Rightarrow>
             if \<not> n < length (outputs (shader_blocks ctx ! b)) then Inl Compile_error
             else Inr (ctx\<lparr>output_updates := output_updates ctx @ [(Output_slot b n, i)]\<rparr>))
      else if File dst = TGSI_FILE_TEMPORARY then
        (case block ctx of
           None \<Rightarrow> Inl Undefined_behaviour
         | Some b \<Rightarrow>
             if \<not> n < length (temporaries (shader_blocks ctx ! b)) then Inl Compile_error
             else Inr (ctx\<lparr>output_updates := output_updates ctx @ [(Temporary_slot b n, i)]\<rparr>))
      else Inr ctx)"

subsection \<open>The SSA resolver\<close>

definition create_output ::
  "fd3_compile_context \<Rightarrow> nat \<Rightarrow> nat option \<Rightarrow> nat \<Rightarrow> nat \<times> fd3_compile_context" where
  "create_output ctx b i n =
     (case ir3_instr_create ctx b (- 1) OPC_META_OUTPUT of
        (out, ctx1) \<Rightarrow>
          let ctx2 = upd_instr ctx1 out (\<lambda>x. x\<lparr>inout_block := Some b\<rparr>);
              ctx3 = snd (ir3_reg_create ctx2 out n {})
          in (case i of
                None \<Rightarrow> (out, ctx3)
              | Some v \<Rightarrow>
                  (case ir3_reg_create ctx3 out 0 {IR3_REG_SSA} of
                     (r, ctx4) \<Rightarrow> (out, upd_reg ctx4 r (\<lambda>x. x\<lparr>instr := Some v\<rparr>)))))"

definition create_input ::
  "fd3_compile_context \<Rightarrow> nat \<Rightarrow> nat option \<Rightarrow> nat \<Rightarrow> nat \<times> fd3_compile_context" where
  "create_input ctx b i n =
     (case ir3_instr_create ctx b (- 1) OPC_META_INPUT of
        (inp, ctx1) \<Rightarrow>
          let ctx2 = upd_instr ctx1 inp (\<lambda>x. x\<lparr>inout_block := Some b\<rparr>);
              ctx3 = snd (ir3_reg_create ctx2 inp n {})
          in (case i of
                None \<Rightarrow> (inp, ctx3)
              | Some v \<Rightarrow>
                  (case ir3_reg_create ctx3 inp 0 {IR3_REG_SSA} of
                     (r, ctx4) \<Rightarrow> (inp, upd_reg ctx4 r (\<lambda>x. x\<lparr>instr := Some v\<rparr>)))))"

text \<open>
  The walks up the parent chain. A block is created after its parent
  (\<^verbatim>\<open>push_block\<close> links the new block to the current one), so a parent link leads to an
  older block; a link that does not is a corrupted pointer.
\<close>

function block_input :: "ir3_block list \<Rightarrow> nat \<Rightarrow> nat \<Rightarrow> error + nat option" where
  "block_input bs b n =
     (case parent (bs ! b) of
        Some p \<Rightarrow> if p < b then block_input bs p n else Inl Undefined_behaviour
      | None \<Rightarrow> array_get (inputs (bs ! b)) n)"
  by pat_completeness auto
termination
  by (relation "measure (\<lambda>(bs, b, n). b)") auto

function block_temporary ::
  "fd3_compile_context \<Rightarrow> nat \<Rightarrow> nat \<Rightarrow> error + nat option \<times> fd3_compile_context" where
  "block_temporary ctx b n =
     (case array_get (temporaries (shader_blocks ctx ! b)) n of
        Inl e \<Rightarrow> Inl e
      | Inr t \<Rightarrow>
          (case parent (shader_blocks ctx ! b) of
             None \<Rightarrow> Inr (t, ctx)
           | Some p \<Rightarrow>
               if t \<noteq> None then Inr (t, ctx)
               else
                 (case array_get (inputs (shader_blocks ctx ! b)) n of
                    Inl e \<Rightarrow> Inl e
                  | Inr inp \<Rightarrow>
                      (case (if inp \<noteq> None then Inr ctx
                             else if p < b then
                               (case block_temporary ctx p n of
                                  Inl e \<Rightarrow> Inl e
                                | Inr (v, ctx1) \<Rightarrow>
                                    Inr (upd_block ctx1 b (\<lambda>x. x\<lparr>inputs := (inputs x)[n := v]\<rparr>)))
                             else Inl Undefined_behaviour) of
                         Inl e \<Rightarrow> Inl e
                       | Inr ctx2 \<Rightarrow>
                           (case create_input ctx2 b (inputs (shader_blocks ctx2 ! b) ! n) n of
                              (i, ctx3) \<Rightarrow> Inr (Some i, ctx3))))))"
  by pat_completeness auto
termination
  by (relation "measure (\<lambda>(ctx, b, n). b)") auto

definition get_ftype :: "fd3_compile_context \<Rightarrow> type_t" where
  "get_ftype ctx = (if half_precision (so ctx) then TYPE_F16 else TYPE_F32)"

definition get_utype :: "fd3_compile_context \<Rightarrow> type_t" where
  "get_utype ctx = (if half_precision (so ctx) then TYPE_U16 else TYPE_U32)"

text \<open>\<^verbatim>\<open>create_immed\<close>; the value is the bit pattern of the float (\<open>0\<close> for \<open>0.0\<close>).\<close>

definition create_immed ::
  "fd3_compile_context \<Rightarrow> 32 word \<Rightarrow> error + nat \<times> fd3_compile_context" where
  "create_immed ctx val =
     (case block ctx of
        None \<Rightarrow> Inl Undefined_behaviour
      | Some b \<Rightarrow>
          (case ir3_instr_create ctx b 1 OPC_ZERO of
             (i, ctx1) \<Rightarrow>
               let ctx2 = upd_instr ctx1 i (\<lambda>x. x\<lparr>cat1_src_type := Some (get_ftype ctx)\<rparr>);
                   ctx3 = upd_instr ctx2 i (\<lambda>x. x\<lparr>cat1_dst_type := Some (get_ftype ctx)\<rparr>);
                   ctx4 = snd (ir3_reg_create ctx3 i 0 {})
               in (case ir3_reg_create ctx4 i 0 {IR3_REG_IMMED} of
                     (r, ctx5) \<Rightarrow> Inr (i, upd_reg ctx5 r (\<lambda>x. x\<lparr>fim_val := val\<rparr>)))))"

definition set_ssa :: "fd3_compile_context \<Rightarrow> nat \<times> nat \<Rightarrow> fd3_compile_context" where
  "set_ssa ctx reg = upd_reg ctx reg (\<lambda>x. x\<lparr>flags := insert IR3_REG_SSA (flags x)\<rparr>)"

definition set_reg_instr ::
  "fd3_compile_context \<Rightarrow> nat \<times> nat \<Rightarrow> nat option \<Rightarrow> fd3_compile_context" where
  "set_reg_instr ctx reg v = upd_reg ctx reg (\<lambda>x. x\<lparr>instr := v\<rparr>)"

text \<open>The \<^verbatim>\<open>switch\<close> of \<^verbatim>\<open>ssa_src\<close>: \<open>reg->flags |= IR3_REG_SSA\<close> and the producer
  looked up in the file of the operand.\<close>

definition ssa_src_lookup ::
  "fd3_compile_context \<Rightarrow> nat \<times> nat \<Rightarrow> tgsi_src_register \<Rightarrow> nat
     \<Rightarrow> error + fd3_compile_context" where
  "ssa_src_lookup ctx reg src n =
     (if File src = TGSI_FILE_INPUT then
        (case block ctx of
           None \<Rightarrow> Inl Undefined_behaviour
         | Some b \<Rightarrow>
             (case block_input (shader_blocks ctx) b n of
                Inl e \<Rightarrow> Inl e
              | Inr v \<Rightarrow> Inr (set_reg_instr (set_ssa ctx reg) reg v)))
      else if File src = TGSI_FILE_OUTPUT then
        (case block ctx of
           None \<Rightarrow> Inl Undefined_behaviour
         | Some b \<Rightarrow>
             (case array_get (outputs (shader_blocks ctx ! b)) n of
                Inl e \<Rightarrow> Inl e
              | Inr v \<Rightarrow>
                  if v = None then Inl Compile_error
                  else Inr (set_reg_instr (set_ssa ctx reg) reg v)))
      else if File src = TGSI_FILE_TEMPORARY then
        (case block ctx of
           None \<Rightarrow> Inl Undefined_behaviour
         | Some b \<Rightarrow>
             (case block_temporary (set_ssa ctx reg) b n of
                Inl e \<Rightarrow> Inl e
              | Inr (v, ctx2) \<Rightarrow> Inr (set_reg_instr ctx2 reg v)))
      else Inr ctx)"

definition ssa_src ::
  "fd3_compile_context \<Rightarrow> nat \<times> nat \<Rightarrow> tgsi_src_register \<Rightarrow> nat
     \<Rightarrow> error + fd3_compile_context" where
  "ssa_src ctx reg src chan =
     (case ssa_src_lookup ctx reg src (regid (Index src) chan) of
        Inl e \<Rightarrow> Inl e
      | Inr ctx3 \<Rightarrow>
          if IR3_REG_SSA \<in> flags (get_reg ctx3 reg) \<and> instr (get_reg ctx3 reg) = None then
            (case create_immed ctx3 0 of
               Inl e \<Rightarrow> Inl e
             | Inr (z, ctx4) \<Rightarrow> Inr (set_reg_instr ctx4 reg (Some z)))
          else Inr ctx3)"

subsection \<open>Operands\<close>

text \<open>A \<^verbatim>\<open>for\<close> loop over the given indices that stops at the first failure.\<close>

fun for_loop :: "('s \<Rightarrow> 'a \<Rightarrow> error + 's) \<Rightarrow> 'a list \<Rightarrow> 's \<Rightarrow> error + 's" where
  "for_loop body [] s = Inr s"
| "for_loop body (i # is) s =
     (case body s i of Inl e \<Rightarrow> Inl e | Inr s' \<Rightarrow> for_loop body is s')"

text \<open>Modelled from the spec: the constant \<^verbatim>\<open>REG_A0\<close> of instr-a3xx.h, which is not
  among the sources: the number of the address register.\<close>

definition REG_A0 :: nat where "REG_A0 = 61"

definition add_dst_collect ::
  "nat \<Rightarrow> tgsi_dst_register \<Rightarrow> nat \<Rightarrow> nat \<Rightarrow> fd3_compile_context \<Rightarrow> nat
     \<Rightarrow> error + fd3_compile_context" where
  "add_dst_collect ins dst chan wr ctx i =
     (if wr AND push_bit i 1 \<noteq> 0 then
        (case block ctx of
           None \<Rightarrow> Inl Undefined_behaviour
         | Some b \<Rightarrow>
             (case ir3_instr_create ctx b (- 1) OPC_META_FO of
                (collect, ctx1) \<Rightarrow>
                  (let ctx2 = upd_instr ctx1 collect (\<lambda>x. x\<lparr>fo_off := i\<rparr>);
                       ctx3 = snd (ir3_reg_create ctx2 collect 0 {})
                   in (case ir3_reg_create ctx3 collect 0 {IR3_REG_SSA} of
                         (r, ctx4) \<Rightarrow>
                           (let ctx5 = set_reg_instr ctx4 r (Some ins)
                            in (if \<not> atomic ctx5 then ssa_dst ctx5 collect dst (chan + i)
                                else Inr ctx5))))))
      else Inr ctx)"

text \<open>The flags that \<^verbatim>\<open>add_dst_reg_wrmask\<close> and \<^verbatim>\<open>add_src_reg_wrmask\<close> compute for the
  new operand record.\<close>

definition dst_flags :: "fd3_compile_context \<Rightarrow> tgsi_dst_register \<Rightarrow> ir3_reg_flag set" where
  "dst_flags ctx dst =
     (if Indirect dst then {IR3_REG_RELATIV} else {})
       \<union> (if half_precision (so ctx) then {IR3_REG_HALF} else {})"

definition src_flags :: "fd3_compile_context \<Rightarrow> tgsi_src_register \<Rightarrow> ir3_reg_flag set" where
  "src_flags ctx src =
     (if File src = TGSI_FILE_IMMEDIATE \<or> File src = TGSI_FILE_CONSTANT
      then {IR3_REG_CONST} else {})
       \<union> (if Absolute src then {IR3_REG_ABS} else {})
       \<union> (if Negate src then {IR3_REG_NEGATE} else {})
       \<union> (if Indirect src then {IR3_REG_RELATIV} else {})
       \<union> (if half_precision (so ctx) then {IR3_REG_HALF} else {})"

definition add_dst_reg_wrmask ::
  "fd3_compile_context \<Rightarrow> nat \<Rightarrow> tgsi_dst_register \<Rightarrow> nat \<Rightarrow> nat
     \<Rightarrow> error + (nat \<times> nat) \<times> fd3_compile_context" where
  "add_dst_reg_wrmask ctx ins dst chan wr =
     (if File dst \<noteq> TGSI_FILE_OUTPUT \<and> File dst \<noteq> TGSI_FILE_TEMPORARY
         \<and> File dst \<noteq> TGSI_FILE_ADDRESS then Inl Compile_error
      else
        (let n = (if File dst = TGSI_FILE_ADDRESS then REG_A0
                  else Index dst + base_reg ctx (File dst));
             fl = dst_flags ctx dst
         in (case ir3_reg_create ctx ins (regid n chan) fl of
               (reg, ctx1) \<Rightarrow>
                 (let ctx2 = upd_reg ctx1 reg (\<lambda>x. x\<lparr>wrmask := wr\<rparr>)
                  in (case
                        (if wr = 1 then
                           (if \<not> atomic ctx2 then ssa_dst ctx2 ins dst chan else Inr ctx2)
                         else if File dst = TGSI_FILE_TEMPORARY \<or> File dst = TGSI_FILE_OUTPUT
                         then for_loop (add_dst_collect ins dst chan wr) [0..<4] ctx2
                         else Inr ctx2) of
                        Inl e \<Rightarrow> Inl e
                      | Inr ctx3 \<Rightarrow> Inr (reg, ctx3))))))"

definition add_dst_reg ::
  "fd3_compile_context \<Rightarrow> nat \<Rightarrow> tgsi_dst_register \<Rightarrow> nat
     \<Rightarrow> error + (nat \<times> nat) \<times> fd3_compile_context" where
  "add_dst_reg ctx ins dst chan = add_dst_reg_wrmask ctx ins dst chan 1"

text \<open>The loop body of the fan-in construction in \<^verbatim>\<open>add_src_reg_wrmask\<close>; the test
  of the \<^verbatim>\<open>else if\<close> is \<^verbatim>\<open>wrmask & ~((i << i) - 1)\<close> on \<^verbatim>\<open>unsigned\<close>.\<close>

definition add_src_collect ::
  "nat \<Rightarrow> tgsi_src_register \<Rightarrow> nat \<Rightarrow> nat \<Rightarrow> fd3_compile_context \<Rightarrow> nat
     \<Rightarrow> error + fd3_compile_context" where
  "add_src_collect collect src chan wr ctx i =
     (if wr AND push_bit i 1 \<noteq> 0 then
        (case ir3_reg_create ctx collect 0 {IR3_REG_SSA} of
           (r, ctx1) \<Rightarrow> ssa_src ctx1 r src (chan + i))
      else if (word_of_nat wr :: 32 word) AND NOT (push_bit i (word_of_nat i) - 1) \<noteq> 0
      then Inr (snd (ir3_reg_create ctx collect 0 {}))
      else Inr ctx)"

definition add_src_reg_wrmask ::
  "fd3_compile_context \<Rightarrow> nat \<Rightarrow> tgsi_src_register \<Rightarrow> nat \<Rightarrow> nat
     \<Rightarrow> error + (nat \<times> nat) \<times> fd3_compile_context" where
  "add_src_reg_wrmask ctx ins src chan wr =
     (if \<not> Index src < 64 then Inl Compile_error
      else if File src \<notin> {TGSI_FILE_IMMEDIATE, TGSI_FILE_CONSTANT, TGSI_FILE_OUTPUT,
                           TGSI_FILE_INPUT, TGSI_FILE_TEMPORARY} then Inl Compile_error
      else
        (let n = Index src + base_reg ctx (File src);
             fl = src_flags ctx src
         in (case ir3_reg_create ctx ins (regid n chan) fl of
               (reg, ctx1) \<Rightarrow>
                 (let ctx2 = upd_reg ctx1 reg (\<lambda>x. x\<lparr>wrmask := wr\<rparr>)
                  in (case
                        (if wr = 1 then ssa_src ctx2 reg src chan
                         else if File src = TGSI_FILE_TEMPORARY \<or> File src = TGSI_FILE_OUTPUT
                                 \<or> File src = TGSI_FILE_INPUT
                         then
                           (case block ctx2 of
                              None \<Rightarrow> Inl Undefined_behaviour
                            | Some b \<Rightarrow>
                                (case ir3_instr_create ctx2 b (- 1) OPC_META_FI of
                                   (collect, ctx3) \<Rightarrow>
                                     (case for_loop (add_src_collect collect src chan wr) [0..<4]
                                             (snd (ir3_reg_create ctx3 collect 0 {})) of
                                        Inl e \<Rightarrow> Inl e
                                      | Inr ctx4 \<Rightarrow>
                                          Inr (set_reg_instr (set_ssa ctx4 reg) reg
                                                 (Some collect)))))
                         else Inr ctx2) of
                        Inl e \<Rightarrow> Inl e
                      | Inr ctx5 \<Rightarrow> Inr (reg, ctx5))))))"

definition add_src_reg ::
  "fd3_compile_context \<Rightarrow> nat \<Rightarrow> tgsi_src_register \<Rightarrow> nat
     \<Rightarrow> error + (nat \<times> nat) \<times> fd3_compile_context" where
  "add_src_reg ctx ins src chan = add_src_reg_wrmask ctx ins src chan 1"

definition src_from_dst :: "tgsi_dst_register \<Rightarrow> tgsi_src_register" where
  "src_from_dst dst =
     \<lparr>File = File dst, Indirect = Indirect dst, Dimension = Dimension dst,
      Index = Index dst, Absolute = False, Negate = False, SwizzleX = TGSI_SWIZZLE_X,
      SwizzleY = TGSI_SWIZZLE_Y, SwizzleZ = TGSI_SWIZZLE_Z, SwizzleW = TGSI_SWIZZLE_W\<rparr>"

text \<open>\<^verbatim>\<open>get_internal_temp\<close> returns the position of the new source register in
  \<open>internal_temps\<close> together with the destination register it filled in.\<close>

definition get_internal_temp ::
  "fd3_compile_context \<Rightarrow> error + (nat \<times> tgsi_dst_register) \<times> fd3_compile_context" where
  "get_internal_temp ctx =
     (let n = num_internal_temps ctx;
          ctx1 = ctx\<lparr>num_internal_temps := n + 1\<rparr>
      in (if \<not> n < INTERNAL_TEMPS_SIZE then Inl Compile_error
          else
            (let d = \<lparr>File = TGSI_FILE_TEMPORARY, Indirect = False, Dimension = False,
                      Index = nat (file_max (info ctx1) TGSI_FILE_TEMPORARY + int n + 1),
                      WriteMask = TGSI_WRITEMASK_XYZW\<rparr>
             in Inr ((n, d),
                  ctx1\<lparr>internal_temps := (internal_temps ctx1)[n := src_from_dst d]\<rparr>))))"

definition is_const :: "tgsi_src_register \<Rightarrow> bool" where
  "is_const src \<longleftrightarrow> File src = TGSI_FILE_CONSTANT \<or> File src = TGSI_FILE_IMMEDIATE"

text \<open>\<^verbatim>\<open>src_swiz\<close>; its callers pass a component below 4, so the \<^verbatim>\<open>assert(0)\<close>
  after the \<^verbatim>\<open>switch\<close> is not reached.\<close>

definition src_swiz :: "tgsi_src_register \<Rightarrow> nat \<Rightarrow> nat" where
  "src_swiz src chan =
     (if chan = 0 then SwizzleX src else if chan = 1 then SwizzleY src
      else if chan = 2 then SwizzleZ src else if chan = 3 then SwizzleW src else 0)"

subsection \<open>The immediate pool\<close>

text \<open>The search loop of \<^verbatim>\<open>get_immediate\<close>: the position at which it stops, and
  \<open>neg\<close> when a \<^verbatim>\<open>break\<close> left the loop.\<close>

function imm_search ::
  "32 word list \<Rightarrow> 32 word \<Rightarrow> nat \<Rightarrow> nat \<Rightarrow> error + nat \<times> bool option" where
  "imm_search imms val n i =
     (if i < n then
        (case array_get imms i of
           Inl e \<Rightarrow> Inl e
         | Inr x \<Rightarrow>
             if x = val then Inr (i, Some False)
             else if x = - val then Inr (i, Some True)
             else imm_search imms val n (Suc i))
      else Inr (i, None))"
  by pat_completeness auto
termination
  by (relation "measure (\<lambda>(imms, val, n, i). n - i)") auto

definition get_immediate ::
  "fd3_compile_context \<Rightarrow> 32 word \<Rightarrow> error + tgsi_src_register \<times> fd3_compile_context" where
  "get_immediate ctx val =
     (case imm_search (immediates (so ctx)) val (immediate_idx ctx) 0 of
        Inl e \<Rightarrow> Inl e
      | Inr (i, found) \<Rightarrow>
          (case
             (if i = immediate_idx ctx then
                (if i < length (immediates (so ctx)) then
                   Inr (False,
                     ctx\<lparr>so := (so ctx)\<lparr>immediates := (immediates (so ctx))[i := val],
                                        immediates_count := i div 4 + 1\<rparr>,
                         immediate_idx := immediate_idx ctx + 1\<rparr>)
                 else Inl Undefined_behaviour)
              else
                (case found of
                   None \<Rightarrow> Inl Undefined_behaviour
                 | Some neg \<Rightarrow> Inr (neg, ctx))) of
             Inl e \<Rightarrow> Inl e
           | Inr (neg, ctx1) \<Rightarrow>
               Inr (\<lparr>File = TGSI_FILE_IMMEDIATE, Indirect = False, Dimension = False,
                     Index = i div 4, Absolute = False, Negate = neg,
                     SwizzleX = i mod 4, SwizzleY = i mod 4, SwizzleZ = i mod 4,
                     SwizzleW = i mod 4\<rparr>, ctx1)))"


subsection \<open>Moves and the destination hazard\<close>

text \<open>The TGSI opcodes whose handlers are modelled below.\<close>

datatype tgsi_opcode =
    TGSI_OPCODE_MOV | TGSI_OPCODE_MUL | TGSI_OPCODE_ADD | TGSI_OPCODE_SUB | TGSI_OPCODE_MIN
  | TGSI_OPCODE_MAX | TGSI_OPCODE_ABS | TGSI_OPCODE_IF | TGSI_OPCODE_ELSE
  | TGSI_OPCODE_ENDIF

record tgsi_full_instruction =
  Opcode :: tgsi_opcode
  Dst :: tgsi_dst_register
  Src :: "tgsi_src_register list"

text \<open>\<open>Opcode\<close> is \<^verbatim>\<open>inst->Instruction.Opcode\<close>, \<open>Dst\<close> is
  \<^verbatim>\<open>inst->Dst[0].Register\<close>, \<open>Src\<close> the registers \<^verbatim>\<open>inst->Src[i].Register\<close> for
  \<open>i\<close> below \<^verbatim>\<open>NumSrcRegs\<close>.\<close>

definition create_mov_body ::
  "tgsi_dst_register \<Rightarrow> tgsi_src_register \<Rightarrow> fd3_compile_context \<Rightarrow> nat
     \<Rightarrow> error + fd3_compile_context" where
  "create_mov_body dst src ctx i =
     (if WriteMask dst AND push_bit i 1 \<noteq> 0 then
        (case
           (if Absolute src \<or> Negate src then instr_create ctx 2 OPC_ABSNEG_F
            else
              (case instr_create ctx 1 OPC_ZERO of
                 Inl e \<Rightarrow> Inl e
               | Inr (k, ctx1) \<Rightarrow>
                   Inr (k, upd_instr
                         (upd_instr ctx1 k (\<lambda>x. x\<lparr>cat1_src_type := Some (get_ftype ctx)\<rparr>))
                         k (\<lambda>x. x\<lparr>cat1_dst_type := Some (get_ftype ctx)\<rparr>)))) of
           Inl e \<Rightarrow> Inl e
         | Inr (k, ctx2) \<Rightarrow>
             (case add_dst_reg ctx2 k dst i of
                Inl e \<Rightarrow> Inl e
              | Inr (r, ctx3) \<Rightarrow>
                  (case add_src_reg ctx3 k src (src_swiz src i) of
                     Inl e \<Rightarrow> Inl e
                   | Inr (r', ctx4) \<Rightarrow> Inr ctx4)))
      else Inr ctx)"

definition create_mov ::
  "fd3_compile_context \<Rightarrow> tgsi_dst_register \<Rightarrow> tgsi_src_register
     \<Rightarrow> error + fd3_compile_context" where
  "create_mov ctx dst src = for_loop (create_mov_body dst src) [0..<4] ctx"

text \<open>The loop of \<^verbatim>\<open>get_dst\<close>: whether it leaves through the \<^verbatim>\<open>break\<close>, that is,
  whether some source names the register of the destination other than with the full
  write-mask and the identity swizzle.\<close>

fun get_dst_scan :: "tgsi_dst_register \<Rightarrow> tgsi_src_register list \<Rightarrow> bool" where
  "get_dst_scan dst [] = False"
| "get_dst_scan dst (src # rest) =
     (if File src = File dst \<and> Index src = Index dst then
        (if WriteMask dst = TGSI_WRITEMASK_XYZW \<and> SwizzleX src = TGSI_SWIZZLE_X
            \<and> SwizzleY src = TGSI_SWIZZLE_Y \<and> SwizzleZ src = TGSI_SWIZZLE_Z
            \<and> SwizzleW src = TGSI_SWIZZLE_W
         then get_dst_scan dst rest
         else True)
      else get_dst_scan dst rest)"

text \<open>The destination that \<^verbatim>\<open>get_dst\<close> returns is either the register of the
  instruction or \<^verbatim>\<open>&ctx->tmp_dst\<close>.\<close>

definition get_dst ::
  "fd3_compile_context \<Rightarrow> tgsi_full_instruction \<Rightarrow> error + dst_ref \<times> fd3_compile_context" where
  "get_dst ctx inst =
     (if get_dst_scan (Dst inst) (Src inst) then
        (case get_internal_temp ctx of
           Inl e \<Rightarrow> Inl e
         | Inr ((n, d), ctx1) \<Rightarrow>
             Inr (Tmp_dst, ctx1\<lparr>tmp_src := Some n,
                                 tmp_dst := d\<lparr>WriteMask := WriteMask (Dst inst)\<rparr>\<rparr>))
      else Inr (Inst_dst, ctx))"

definition deref_dst ::
  "fd3_compile_context \<Rightarrow> tgsi_full_instruction \<Rightarrow> dst_ref \<Rightarrow> tgsi_dst_register" where
  "deref_dst ctx inst d = (case d of Inst_dst \<Rightarrow> Dst inst | Tmp_dst \<Rightarrow> tmp_dst ctx)"

definition put_dst ::
  "fd3_compile_context \<Rightarrow> tgsi_full_instruction \<Rightarrow> dst_ref \<Rightarrow> error + fd3_compile_context" where
  "put_dst ctx inst d =
     (if d \<noteq> Inst_dst then
        (case tmp_src ctx of
           None \<Rightarrow> Inl Undefined_behaviour
         | Some n \<Rightarrow> create_mov ctx (Dst inst) (internal_temps ctx ! n))
      else Inr ctx)"

subsection \<open>The vectorizer\<close>

text \<open>
  A variadic operand of \<^verbatim>\<open>vectorize\<close> is a pointer to a source register, or, under
  the flag \<^verbatim>\<open>IR3_REG_IMMED\<close>, an integer passed in its place. Reading one as the
  other has no meaning.
\<close>

datatype vec_arg = Src_arg tgsi_src_register | Int_arg int

definition vectorize_attach ::
  "nat \<Rightarrow> fd3_compile_context \<Rightarrow> vec_arg \<times> ir3_reg_flag set \<Rightarrow> error + fd3_compile_context" where
  "vectorize_attach ins ctx a =
     (case
        (if IR3_REG_IMMED \<in> snd a then
           (case fst a of
              Int_arg v \<Rightarrow>
                (case ir3_reg_create ctx ins 0 {IR3_REG_IMMED} of
                   (r, ctx1) \<Rightarrow> Inr (r, upd_reg ctx1 r (\<lambda>x. x\<lparr>iim_val := v\<rparr>)))
            | Src_arg src \<Rightarrow> Inl Undefined_behaviour)
         else
           (case fst a of
              Src_arg src \<Rightarrow> add_src_reg ctx ins src TGSI_SWIZZLE_X
            | Int_arg v \<Rightarrow> Inl Undefined_behaviour)) of
        Inl e \<Rightarrow> Inl e
      | Inr (r, ctx2) \<Rightarrow>
          (let ctx3 = upd_reg ctx2 r (\<lambda>x. x\<lparr>flags := flags x \<union> (snd a - {IR3_REG_NEGATE})\<rparr>)
           in Inr (if IR3_REG_NEGATE \<in> snd a
                   then upd_reg ctx3 r
                          (\<lambda>x. x\<lparr>flags := (if IR3_REG_NEGATE \<in> flags x
                                            then flags x - {IR3_REG_NEGATE}
                                            else insert IR3_REG_NEGATE (flags x))\<rparr>)
                   else ctx3)))"

definition vectorize_fixup ::
  "nat \<Rightarrow> nat \<Rightarrow> fd3_compile_context \<Rightarrow> nat \<times> vec_arg \<times> ir3_reg_flag set
     \<Rightarrow> error + fd3_compile_context" where
  "vectorize_fixup cur i ctx ja =
     (case ja of
        (j, arg, fl) \<Rightarrow>
          if IR3_REG_SSA \<in> flags (get_reg ctx (cur, j + 1)) then
            (case arg of
               Src_arg src \<Rightarrow> ssa_src ctx (cur, j + 1) src (src_swiz src i)
             | Int_arg v \<Rightarrow> Inl Undefined_behaviour)
          else if IR3_REG_IMMED \<notin> fl then
            (case arg of
               Src_arg src \<Rightarrow>
                 Inr (upd_reg ctx (cur, j + 1)
                        (\<lambda>x. x\<lparr>num := regid (drop_bit 2 (num x)) (src_swiz src i)\<rparr>))
             | Int_arg v \<Rightarrow> Inl Undefined_behaviour)
          else Inr ctx)"

text \<open>The second loop of \<^verbatim>\<open>vectorize\<close>; its state is the counter \<open>n\<close> of enabled
  components seen so far and the context.\<close>

definition vectorize_body ::
  "nat \<Rightarrow> tgsi_dst_register \<Rightarrow> (vec_arg \<times> ir3_reg_flag set) list
     \<Rightarrow> nat \<times> fd3_compile_context \<Rightarrow> nat \<Rightarrow> error + nat \<times> fd3_compile_context" where
  "vectorize_body ins dst args s i =
     (case s of
        (n, ctx) \<Rightarrow>
          if WriteMask dst AND push_bit i 1 \<noteq> 0 then
            (case (if n = 0 then (ins, ctx) else instr_clone ctx ins) of
               (cur, ctx1) \<Rightarrow>
                 (case ssa_dst ctx1 cur dst i of
                    Inl e \<Rightarrow> Inl e
                  | Inr ctx2 \<Rightarrow>
                      (case for_loop (vectorize_fixup cur i) (enumerate 0 args)
                              (upd_reg ctx2 (cur, 0)
                                 (\<lambda>x. x\<lparr>num := regid (drop_bit 2 (num x)) i\<rparr>)) of
                         Inl e \<Rightarrow> Inl e
                       | Inr ctx3 \<Rightarrow> Inr (n + 1, ctx3))))
          else Inr (n, ctx))"

definition vectorize ::
  "fd3_compile_context \<Rightarrow> nat \<Rightarrow> tgsi_dst_register \<Rightarrow> (vec_arg \<times> ir3_reg_flag set) list
     \<Rightarrow> error + fd3_compile_context" where
  "vectorize ctx ins dst args =
     (case add_dst_reg (instr_atomic_start ctx) ins dst TGSI_SWIZZLE_X of
        Inl e \<Rightarrow> Inl e
      | Inr (r, ctx1) \<Rightarrow>
          (case for_loop (vectorize_attach ins) args ctx1 of
             Inl e \<Rightarrow> Inl e
           | Inr ctx2 \<Rightarrow>
               (case for_loop (vectorize_body ins dst args) [0..<4] (0, ctx2) of
                  Inl e \<Rightarrow> Inl e
                | Inr (n, ctx3) \<Rightarrow> Inr (instr_atomic_end ctx3))))"

subsection \<open>Conditionals\<close>

definition array_set :: "'a list \<Rightarrow> nat \<Rightarrow> 'a \<Rightarrow> error + 'a list" where
  "array_set xs n v = (if n < length xs then Inr (xs[n := v]) else Inl Undefined_behaviour)"

definition push_branch ::
  "fd3_compile_context \<Rightarrow> nat \<Rightarrow> error + fd3_compile_context" where
  "push_branch ctx i =
     (case array_set (branch ctx) (branch_count ctx) (Some i) of
        Inl e \<Rightarrow> Inl e
      | Inr br \<Rightarrow> Inr (ctx\<lparr>branch := br, branch_count := branch_count ctx + 1\<rparr>))"

definition pop_branch ::
  "fd3_compile_context \<Rightarrow> error + nat option \<times> fd3_compile_context" where
  "pop_branch ctx =
     (if branch_count ctx = 0 then Inl Undefined_behaviour
      else
        (case array_get (branch ctx) (branch_count ctx - 1) of
           Inl e \<Rightarrow> Inl e
         | Inr i \<Rightarrow> Inr (i, ctx\<lparr>branch_count := branch_count ctx - 1\<rparr>)))"

function find_temporary :: "ir3_block list \<Rightarrow> nat \<Rightarrow> nat \<Rightarrow> error + nat option" where
  "find_temporary bs b n =
     (case array_get (temporaries (bs ! b)) n of
        Inl e \<Rightarrow> Inl e
      | Inr t \<Rightarrow>
          (case parent (bs ! b) of
             None \<Rightarrow> Inr t
           | Some p \<Rightarrow>
               if t \<noteq> None then Inr t
               else if p < b then find_temporary bs p n
               else Inl Undefined_behaviour))"
  by pat_completeness auto
termination
  by (relation "measure (\<lambda>(bs, b, n). b)") auto

function find_output :: "ir3_block list \<Rightarrow> nat \<Rightarrow> nat \<Rightarrow> error + nat option" where
  "find_output bs b n =
     (case array_get (outputs (bs ! b)) n of
        Inl e \<Rightarrow> Inl e
      | Inr t \<Rightarrow>
          (case parent (bs ! b) of
             None \<Rightarrow> Inr t
           | Some p \<Rightarrow>
               if t \<noteq> None then Inr t
               else if p < b then find_output bs p n
               else Inl Undefined_behaviour))"
  by pat_completeness auto
termination
  by (relation "measure (\<lambda>(bs, b, n). b)") auto

definition create_phi ::
  "fd3_compile_context \<Rightarrow> nat option \<Rightarrow> nat option \<Rightarrow> nat option
     \<Rightarrow> error + nat \<times> fd3_compile_context" where
  "create_phi ctx cond a b =
     (case cond of
        None \<Rightarrow> Inl Compile_error
      | Some cnd \<Rightarrow>
          (case (case a of Some x \<Rightarrow> Inr (x, ctx) | None \<Rightarrow> create_immed ctx 0) of
             Inl e \<Rightarrow> Inl e
           | Inr (a1, ctx1) \<Rightarrow>
               (case (case b of Some x \<Rightarrow> Inr (x, ctx1) | None \<Rightarrow> create_immed ctx1 0) of
                  Inl e \<Rightarrow> Inl e
                | Inr (b1, ctx2) \<Rightarrow>
                    (case instr_create ctx2 (- 1) OPC_META_PHI of
                       Inl e \<Rightarrow> Inl e
                     | Inr (phi, ctx3) \<Rightarrow>
                         (let ctx4 = snd (ir3_reg_create ctx3 phi 0 {})
                          in (case ir3_reg_create ctx4 phi 0 {IR3_REG_SSA} of
                                (r1, ctx5) \<Rightarrow>
                                  (case ir3_reg_create (set_reg_instr ctx5 r1 (Some cnd)) phi 0
                                          {IR3_REG_SSA} of
                                     (r2, ctx6) \<Rightarrow>
                                       (case ir3_reg_create (set_reg_instr ctx6 r2 (Some a1))
                                               phi 0 {IR3_REG_SSA} of
                                          (r3, ctx7) \<Rightarrow>
                                            Inr (phi, set_reg_instr ctx7 r3 (Some b1))))))))))"


definition trans_else :: "fd3_compile_context \<Rightarrow> error + fd3_compile_context" where
  "trans_else ctx =
     (case pop_block ctx of
        Inl e \<Rightarrow> Inl e
      | Inr ctx1 \<Rightarrow>
          (case pop_branch ctx1 of
             Inl e \<Rightarrow> Inl e
           | Inr (None, ctx2) \<Rightarrow> Inl Undefined_behaviour
           | Inr (Some flow, ctx2) \<Rightarrow>
               if \<not> (category (shader_instrs ctx2 ! flow) = - 1
                      \<and> opc (shader_instrs ctx2 ! flow) = OPC_META_FLOW)
               then Inl Compile_error
               else
                 (case push_branch ctx2 flow of
                    Inl e \<Rightarrow> Inl e
                  | Inr ctx3 \<Rightarrow>
                      (case push_block ctx3 of
                         (b, ctx4) \<Rightarrow>
                           Inr (upd_instr ctx4 flow (\<lambda>x. x\<lparr>flow_else_block := Some b\<rparr>))))))"

text \<open>
  The state of the two merge loops of \<^verbatim>\<open>trans_endif\<close>: the context, the array
  \<^verbatim>\<open>ifout\<close> with the number \<^verbatim>\<open>ifnout\<close> of entries filled, and \<^verbatim>\<open>elseout\<close> with
  \<^verbatim>\<open>elsenout\<close>. The arrays have the sizes that the counting loops computed for
  \<^verbatim>\<open>ir3_alloc\<close>.
\<close>

type_synonym endif_state =
  "fd3_compile_context \<times> nat option list \<times> nat \<times> nat option list \<times> nat"

definition endif_branch_sides ::
  "nat \<Rightarrow> nat \<Rightarrow> nat \<Rightarrow> endif_state \<Rightarrow> nat option \<Rightarrow> nat option
     \<Rightarrow> error + (nat \<times> endif_state)" where
  "endif_branch_sides flow ifb elseb st a1 b1 =
     (case st of
        (ctx, ifout, ifnout, elseout, elsenout) \<Rightarrow>
          (case array_set ifout ifnout a1 of
             Inl e \<Rightarrow> Inl e
           | Inr ifout1 \<Rightarrow>
               (case create_output ctx ifb a1 ifnout of
                  (a2, ctx1) \<Rightarrow>
                    (case
                       (if Some elseb \<noteq> parent (shader_blocks ctx1 ! ifb) then
                          (case array_set elseout elsenout b1 of
                             Inl e \<Rightarrow> Inl e
                           | Inr elseout1 \<Rightarrow>
                               (case create_output ctx1 elseb b1 elsenout of
                                  (b2, ctx2) \<Rightarrow> Inr (Some b2, ctx2, elseout1, elsenout + 1)))
                        else Inr (b1, ctx1, elseout, elsenout)) of
                       Inl e \<Rightarrow> Inl e
                     | Inr (b3, ctx3, elseout2, elsenout2) \<Rightarrow>
                         (case create_phi ctx3 (Some flow) (Some a2) b3 of
                            Inl e \<Rightarrow> Inl e
                          | Inr (phi, ctx4) \<Rightarrow>
                              Inr (phi, ctx4, ifout1, ifnout + 1, elseout2, elsenout2))))))"

definition endif_temporary ::
  "nat \<Rightarrow> nat \<Rightarrow> nat \<Rightarrow> endif_state \<Rightarrow> nat \<Rightarrow> error + endif_state" where
  "endif_temporary flow ifb elseb st i =
     (case array_get (temporaries (shader_blocks (fst st) ! ifb)) i of
        Inl e \<Rightarrow> Inl e
      | Inr a \<Rightarrow>
          (case array_get (temporaries (shader_blocks (fst st) ! elseb)) i of
             Inl e \<Rightarrow> Inl e
           | Inr b \<Rightarrow>
               if a \<noteq> None
                  \<or> (Some elseb \<noteq> parent (shader_blocks (fst st) ! ifb) \<and> b \<noteq> None)
               then
                 (case (if a = None then find_temporary (shader_blocks (fst st)) ifb i
                        else Inr a) of
                    Inl e \<Rightarrow> Inl e
                  | Inr a1 \<Rightarrow>
                      (case (if b = None then find_temporary (shader_blocks (fst st)) elseb i
                             else Inr b) of
                         Inl e \<Rightarrow> Inl e
                       | Inr b1 \<Rightarrow>
                           (case endif_branch_sides flow ifb elseb st a1 b1 of
                              Inl e \<Rightarrow> Inl e
                            | Inr (phi, ctx4, rest) \<Rightarrow>
                                (case block ctx4 of
                                   None \<Rightarrow> Inl Undefined_behaviour
                                 | Some cur \<Rightarrow>
                                     (case array_set (temporaries (shader_blocks ctx4 ! cur)) i
                                             (Some phi) of
                                        Inl e \<Rightarrow> Inl e
                                      | Inr ts \<Rightarrow>
                                          Inr (upd_block ctx4 cur (\<lambda>x. x\<lparr>temporaries := ts\<rparr>),
                                               rest))))))
               else Inr st))"

definition endif_output ::
  "nat \<Rightarrow> nat \<Rightarrow> nat \<Rightarrow> endif_state \<Rightarrow> nat \<Rightarrow> error + endif_state" where
  "endif_output flow ifb elseb st i =
     (case array_get (outputs (shader_blocks (fst st) ! ifb)) i of
        Inl e \<Rightarrow> Inl e
      | Inr a \<Rightarrow>
          (case array_get (outputs (shader_blocks (fst st) ! elseb)) i of
             Inl e \<Rightarrow> Inl e
           | Inr b \<Rightarrow>
               if a \<noteq> None
                  \<or> (Some elseb \<noteq> parent (shader_blocks (fst st) ! ifb) \<and> b \<noteq> None)
               then
                 (case (if a = None then find_output (shader_blocks (fst st)) ifb i
                        else Inr a) of
                    Inl e \<Rightarrow> Inl e
                  | Inr a1 \<Rightarrow>
                      (case (if b = None then find_output (shader_blocks (fst st)) elseb i
                             else Inr b) of
                         Inl e \<Rightarrow> Inl e
                       | Inr b1 \<Rightarrow>
                           (case endif_branch_sides flow ifb elseb st a1 b1 of
                              Inl e \<Rightarrow> Inl e
                            | Inr (phi, ctx4, rest) \<Rightarrow>
                                (case block ctx4 of
                                   None \<Rightarrow> Inl Undefined_behaviour
                                 | Some cur \<Rightarrow>
                                     (case array_set (outputs (shader_blocks ctx4 ! cur)) i
                                             (Some phi) of
                                        Inl e \<Rightarrow> Inl e
                                      | Inr os \<Rightarrow>
                                          Inr (upd_block ctx4 cur (\<lambda>x. x\<lparr>outputs := os\<rparr>),
                                               rest))))))
               else Inr st))"

definition count_written :: "nat option list \<Rightarrow> nat" where
  "count_written xs = length (filter (\<lambda>x. x \<noteq> None) xs)"

text \<open>The part of \<^verbatim>\<open>trans_endif\<close> after the marker and the two blocks are known:
  the counting loops, the two allocations, the two merge loops and the new output
  lists of the branch blocks.\<close>

definition endif_merge ::
  "fd3_compile_context \<Rightarrow> nat \<Rightarrow> nat \<Rightarrow> nat \<Rightarrow> error + fd3_compile_context" where
  "endif_merge ctx flow ifb elseb =
     (let ift = temporaries (shader_blocks ctx ! ifb);
          ifo = outputs (shader_blocks ctx ! ifb);
          elset = temporaries (shader_blocks ctx ! elseb);
          elseo = outputs (shader_blocks ctx ! elseb)
      in (if length elset < length ift \<or> length elseo < length ifo
          then Inl Undefined_behaviour
          else
            (let ifnout = count_written ift + count_written ifo;
                 elsenout = count_written (take (length ift) elset)
                              + count_written (take (length ifo) elseo)
             in (case for_loop (endif_temporary flow ifb elseb) [0..<length ift]
                         (ctx, replicate ifnout None, 0, replicate elsenout None, 0) of
                   Inl e \<Rightarrow> Inl e
                 | Inr st1 \<Rightarrow>
                     (case for_loop (endif_output flow ifb elseb) [0..<length ifo] st1 of
                        Inl e \<Rightarrow> Inl e
                      | Inr (ctx3, ifout, ifn, elseout, elsen) \<Rightarrow>
                          (let ctx4 = upd_block ctx3 ifb (\<lambda>x. x\<lparr>outputs := take ifn ifout\<rparr>)
                           in Inr (if Some elseb \<noteq> parent (shader_blocks ctx4 ! ifb)
                                   then upd_block ctx4 elseb
                                          (\<lambda>x. x\<lparr>outputs := take elsen elseout\<rparr>)
                                   else ctx4)))))))"

definition trans_endif :: "fd3_compile_context \<Rightarrow> error + fd3_compile_context" where
  "trans_endif ctx =
     (case pop_block ctx of
        Inl e \<Rightarrow> Inl e
      | Inr ctx1 \<Rightarrow>
          (case pop_branch ctx1 of
             Inl e \<Rightarrow> Inl e
           | Inr (None, ctx2) \<Rightarrow> Inl Undefined_behaviour
           | Inr (Some flow, ctx2) \<Rightarrow>
               if \<not> (category (shader_instrs ctx2 ! flow) = - 1
                      \<and> opc (shader_instrs ctx2 ! flow) = OPC_META_FLOW)
               then Inl Compile_error
               else
                 (case flow_if_block (shader_instrs ctx2 ! flow) of
                    None \<Rightarrow> Inl Undefined_behaviour
                  | Some ifb \<Rightarrow>
                      (case (case flow_else_block (shader_instrs ctx2 ! flow) of
                               Some e \<Rightarrow> Some e
                             | None \<Rightarrow> parent (shader_blocks ctx2 ! ifb)) of
                         None \<Rightarrow> Inl Undefined_behaviour
                       | Some elseb \<Rightarrow> endif_merge ctx2 flow ifb elseb))))"


subsection \<open>Handlers\<close>

text \<open>\<^verbatim>\<open>get_unconst\<close> returns the position in \<open>internal_temps\<close> of the temporary it
  moved the operand to.\<close>

definition get_unconst ::
  "fd3_compile_context \<Rightarrow> tgsi_src_register \<Rightarrow> error + nat \<times> fd3_compile_context" where
  "get_unconst ctx src =
     (if \<not> (Indirect src \<or> is_const src) then Inl Compile_error
      else
        (case get_internal_temp ctx of
           Inl e \<Rightarrow> Inl e
         | Inr ((n, d), ctx1) \<Rightarrow>
             (case create_mov ctx1 d src of
                Inl e \<Rightarrow> Inl e
              | Inr ctx2 \<Rightarrow> Inr (n, ctx2))))"

definition trans_if ::
  "fd3_compile_context \<Rightarrow> tgsi_full_instruction \<Rightarrow> error + fd3_compile_context" where
  "trans_if ctx inst =
     (case get_immediate ctx 0 of
        Inl e \<Rightarrow> Inl e
      | Inr (constval, ctx1) \<Rightarrow>
     (case get_internal_temp ctx1 of
        Inl e \<Rightarrow> Inl e
      | Inr ((t, tmp), ctx2) \<Rightarrow>
     (case (if is_const (Src inst ! 0) then
              (case get_unconst ctx2 (Src inst ! 0) of
                 Inl e \<Rightarrow> Inl e
               | Inr (u, ctx3) \<Rightarrow> Inr (internal_temps ctx3 ! u, ctx3))
            else Inr (Src inst ! 0, ctx2)) of
        Inl e \<Rightarrow> Inl e
      | Inr (src, ctx3) \<Rightarrow>
     (case instr_create ctx3 2 OPC_CMPS_F of
        Inl e \<Rightarrow> Inl e
      | Inr (k1, ctx4) \<Rightarrow>
     (case add_dst_reg ctx4 k1 tmp 0 of
        Inl e \<Rightarrow> Inl e
      | Inr (r1, ctx5) \<Rightarrow>
     (case add_src_reg ctx5 k1 src (SwizzleX src) of
        Inl e \<Rightarrow> Inl e
      | Inr (r2, ctx6) \<Rightarrow>
     (case add_src_reg ctx6 k1 constval (SwizzleX constval) of
        Inl e \<Rightarrow> Inl e
      | Inr (r3, ctx7) \<Rightarrow>
     (case instr_create (upd_instr ctx7 k1 (\<lambda>x. x\<lparr>cat2_condition := Some IR3_COND_EQ\<rparr>))
             2 OPC_ADD_S of
        Inl e \<Rightarrow> Inl e
      | Inr (k2, ctx8) \<Rightarrow>
     (case add_dst_reg ctx8 k2 tmp TGSI_SWIZZLE_X of
        Inl e \<Rightarrow> Inl e
      | Inr (r4, ctx9) \<Rightarrow>
     (case add_src_reg ctx9 k2 (internal_temps ctx9 ! t) TGSI_SWIZZLE_X of
        Inl e \<Rightarrow> Inl e
      | Inr (r5, ctx10) \<Rightarrow>
     (case ir3_reg_create ctx10 k2 0 {IR3_REG_IMMED} of
        (r6, ctx11) \<Rightarrow>
     (case instr_create (upd_reg ctx11 r6 (\<lambda>x. x\<lparr>iim_val := - 1\<rparr>)) (- 1) OPC_META_FLOW of
        Inl e \<Rightarrow> Inl e
      | Inr (k3, ctx12) \<Rightarrow>
     (case add_src_reg (snd (ir3_reg_create ctx12 k3 0 {})) k3 (internal_temps ctx12 ! t)
             TGSI_SWIZZLE_X of
        Inl e \<Rightarrow> Inl e
      | Inr (r7, ctx13) \<Rightarrow>
     (case push_branch ctx13 k3 of
        Inl e \<Rightarrow> Inl e
      | Inr ctx14 \<Rightarrow>
     (case push_block ctx14 of
        (b, ctx15) \<Rightarrow>
          Inr (upd_instr ctx15 k3 (\<lambda>x. x\<lparr>flow_if_block := Some b\<rparr>)))))))))))))))))"

definition instr_cat1 ::
  "fd3_compile_context \<Rightarrow> tgsi_full_instruction \<Rightarrow> error + fd3_compile_context" where
  "instr_cat1 ctx inst =
     (case get_dst ctx inst of
        Inl e \<Rightarrow> Inl e
      | Inr (d, ctx1) \<Rightarrow>
          (case
             (if Negate (Src inst ! 0) then
                (case instr_create ctx1 2 OPC_ADD_F of
                   Inl e \<Rightarrow> Inl e
                 | Inr (k, ctx2) \<Rightarrow>
                     (case get_immediate ctx2 0 of
                        Inl e \<Rightarrow> Inl e
                      | Inr (constval, ctx3) \<Rightarrow>
                          vectorize ctx3 k (deref_dst ctx3 inst d)
                            [(Src_arg (Src inst ! 0), {}), (Src_arg constval, {})]))
              else create_mov ctx1 (deref_dst ctx1 inst d) (Src inst ! 0)) of
             Inl e \<Rightarrow> Inl e
           | Inr ctx4 \<Rightarrow> put_dst ctx4 inst d))"

record instr_translater =
  tgsi_opc :: tgsi_opcode
  native_opc :: opc_t

text \<open>\<open>native_opc\<close> is the field \<^verbatim>\<open>opc\<close> of the translater.\<close>

definition one_src_opcs :: "opc_t set" where
  "one_src_opcs = {OPC_ABSNEG_F, OPC_ABSNEG_S, OPC_CLZ_B, OPC_CLZ_S, OPC_SIGN_F,
     OPC_FLOOR_F, OPC_CEIL_F, OPC_RNDNE_F, OPC_RNDAZ_F, OPC_TRUNC_F, OPC_NOT_B,
     OPC_BFREV_B, OPC_SETRM, OPC_CBITS_B}"

definition instr_cat2 ::
  "instr_translater \<Rightarrow> fd3_compile_context \<Rightarrow> tgsi_full_instruction
     \<Rightarrow> error + fd3_compile_context" where
  "instr_cat2 t ctx inst =
     (case get_dst ctx inst of
        Inl e \<Rightarrow> Inl e
      | Inr (d, ctx1) \<Rightarrow>
          (let src0_flags = (if tgsi_opc t = TGSI_OPCODE_ABS then {IR3_REG_ABS} else {});
               src1_flags = (if tgsi_opc t = TGSI_OPCODE_SUB then {IR3_REG_NEGATE} else {})
           in (case
                 (if native_opc t \<in> one_src_opcs then
                    (case instr_create ctx1 2 (native_opc t) of
                       Inl e \<Rightarrow> Inl e
                     | Inr (k, ctx2) \<Rightarrow>
                         vectorize ctx2 k (deref_dst ctx2 inst d)
                           [(Src_arg (Src inst ! 0), src0_flags)])
                  else
                    (case (if is_const (Src inst ! 0) \<and> is_const (Src inst ! 1) then
                             (case get_unconst ctx1 (Src inst ! 0) of
                                Inl e \<Rightarrow> Inl e
                              | Inr (u, ctx2) \<Rightarrow> Inr (internal_temps ctx2 ! u, ctx2))
                           else Inr (Src inst ! 0, ctx1)) of
                       Inl e \<Rightarrow> Inl e
                     | Inr (src0, ctx2) \<Rightarrow>
                         (case instr_create ctx2 2 (native_opc t) of
                            Inl e \<Rightarrow> Inl e
                          | Inr (k, ctx3) \<Rightarrow>
                              vectorize ctx3 k (deref_dst ctx3 inst d)
                                [(Src_arg src0, src0_flags),
                                 (Src_arg (Src inst ! 1), src1_flags)]))) of
                 Inl e \<Rightarrow> Inl e
               | Inr ctx4 \<Rightarrow> put_dst ctx4 inst d)))"

text \<open>The entries of \<^verbatim>\<open>translaters[]\<close> for the modelled opcodes, and the body of the
  instruction case of \<^verbatim>\<open>compile_instructions\<close> for an instruction without a saturate
  modifier: the handler, the reset of the internal temporaries, \<^verbatim>\<open>instr_finish\<close>.\<close>

definition translate ::
  "fd3_compile_context \<Rightarrow> tgsi_full_instruction \<Rightarrow> error + fd3_compile_context" where
  "translate ctx inst =
     (case Opcode inst of
        TGSI_OPCODE_MOV \<Rightarrow> instr_cat1 ctx inst
      | TGSI_OPCODE_MUL \<Rightarrow>
          instr_cat2 \<lparr>tgsi_opc = TGSI_OPCODE_MUL, native_opc = OPC_MUL_F\<rparr> ctx inst
      | TGSI_OPCODE_ADD \<Rightarrow>
          instr_cat2 \<lparr>tgsi_opc = TGSI_OPCODE_ADD, native_opc = OPC_ADD_F\<rparr> ctx inst
      | TGSI_OPCODE_SUB \<Rightarrow>
          instr_cat2 \<lparr>tgsi_opc = TGSI_OPCODE_SUB, native_opc = OPC_ADD_F\<rparr> ctx inst
      | TGSI_OPCODE_MIN \<Rightarrow>
          instr_cat2 \<lparr>tgsi_opc = TGSI_OPCODE_MIN, native_opc = OPC_MIN_F\<rparr> ctx inst
      | TGSI_OPCODE_MAX \<Rightarrow>
          instr_cat2 \<lparr>tgsi_opc = TGSI_OPCODE_MAX, native_opc = OPC_MAX_F\<rparr> ctx inst
      | TGSI_OPCODE_ABS \<Rightarrow>
          instr_cat2 \<lparr>tgsi_opc = TGSI_OPCODE_ABS, native_opc = OPC_ABSNEG_F\<rparr> ctx inst
      | TGSI_OPCODE_IF \<Rightarrow> trans_if ctx inst
      | TGSI_OPCODE_ELSE \<Rightarrow> trans_else ctx
      | TGSI_OPCODE_ENDIF \<Rightarrow> trans_endif ctx)"

definition compile_instruction ::
  "fd3_compile_context \<Rightarrow> tgsi_full_instruction \<Rightarrow> error + fd3_compile_context" where
  "compile_instruction ctx inst =
     (case translate ctx inst of
        Inl e \<Rightarrow> Inl e
      | Inr ctx1 \<Rightarrow> Inr (instr_finish (ctx1\<lparr>num_internal_temps := 0\<rparr>)))"


subsection \<open>Reading slots\<close>

fun slot_valid :: "ir3_block list \<Rightarrow> slot \<Rightarrow> bool" where
  "slot_valid bs (Output_slot b n) \<longleftrightarrow> b < length bs \<and> n < length (outputs (bs ! b))"
| "slot_valid bs (Temporary_slot b n) \<longleftrightarrow> b < length bs \<and> n < length (temporaries (bs ! b))"

fun slot_value :: "ir3_block list \<Rightarrow> slot \<Rightarrow> nat option" where
  "slot_value bs (Output_slot b n) = outputs (bs ! b) ! n"
| "slot_value bs (Temporary_slot b n) = temporaries (bs ! b) ! n"

subsection \<open>Sample shaders\<close>

text \<open>A vertex shader state with an immediate pool of four slots, and a scan that
  found the temporaries 0..1, one input and one output.\<close>

definition vs_so :: fd3_shader_stateobj where
  "vs_so = \<lparr>so_type = SHADER_VERTEX, half_precision = False, first_immediate = 0,
     immediates = replicate 16 0, immediates_count = 0\<rparr>"

definition vs_info :: tgsi_shader_info where
  "vs_info =
     \<lparr>file_max = (\<lambda>f. if f = TGSI_FILE_TEMPORARY then 1 else if f = TGSI_FILE_INPUT then 0
                       else if f = TGSI_FILE_OUTPUT then 0 else - 1),
      indirect_files = {}\<rparr>"

text \<open>The context when \<^verbatim>\<open>compile_instructions\<close> has pushed the outermost block.\<close>

definition vs_ctx :: fd3_compile_context where
  "vs_ctx = snd (push_block (snd (compile_init vs_so vs_info TGSI_PARSE_OK
                                    TGSI_PROCESSOR_VERTEX)))"

text \<open>A full-precision fragment shader using constants 0..3, immediates 0..1, inputs
  0..1, output 0 and temporaries 0..2.\<close>

definition fs_so :: fd3_shader_stateobj where
  "fs_so = \<lparr>so_type = SHADER_FRAGMENT, half_precision = False, first_immediate = 0,
     immediates = replicate 16 0, immediates_count = 0\<rparr>"

definition fs_info :: tgsi_shader_info where
  "fs_info =
     \<lparr>file_max = (\<lambda>f. if f = TGSI_FILE_CONSTANT then 3 else if f = TGSI_FILE_IMMEDIATE then 1
                       else if f = TGSI_FILE_INPUT then 1 else if f = TGSI_FILE_OUTPUT then 0
                       else if f = TGSI_FILE_TEMPORARY then 2 else - 1),
      indirect_files = {}\<rparr>"

definition fs_ctx :: fd3_compile_context where
  "fs_ctx = snd (compile_init fs_so fs_info TGSI_PARSE_OK TGSI_PROCESSOR_FRAGMENT)"

definition temp_src :: "nat \<Rightarrow> tgsi_src_register" where
  "temp_src n = \<lparr>File = TGSI_FILE_TEMPORARY, Indirect = False, Dimension = False,
     Index = n, Absolute = False, Negate = False, SwizzleX = TGSI_SWIZZLE_X,
     SwizzleY = TGSI_SWIZZLE_Y, SwizzleZ = TGSI_SWIZZLE_Z, SwizzleW = TGSI_SWIZZLE_W\<rparr>"

definition temp_dst :: "nat \<Rightarrow> nat \<Rightarrow> tgsi_dst_register" where
  "temp_dst n m = \<lparr>File = TGSI_FILE_TEMPORARY, Indirect = False, Dimension = False,
     Index = n, WriteMask = m\<rparr>"

text \<open>The context after \<^verbatim>\<open>instr_create(ctx, 2, OPC_ADD_F)\<close> in the outermost block, and
  the two source operands of \<^verbatim>\<open>ADD TEMP[1], TEMP[0], TEMP[0]\<close>.\<close>

definition add_f_ctx :: fd3_compile_context where
  "add_f_ctx = (case instr_create vs_ctx 2 OPC_ADD_F of Inl e \<Rightarrow> vs_ctx | Inr (k, c) \<Rightarrow> c)"

definition add_f_args :: "(vec_arg \<times> ir3_reg_flag set) list" where
  "add_f_args = [(Src_arg (temp_src 0), {}), (Src_arg (temp_src 0), {})]"


text \<open>The source register that \<^verbatim>\<open>get_immediate\<close> fills in for position \<open>i\<close> of the
  pool.\<close>

definition imm_ref :: "nat \<Rightarrow> bool \<Rightarrow> tgsi_src_register" where
  "imm_ref i neg = \<lparr>File = TGSI_FILE_IMMEDIATE, Indirect = False, Dimension = False,
     Index = i div 4, Absolute = False, Negate = neg, SwizzleX = i mod 4,
     SwizzleY = i mod 4, SwizzleZ = i mod 4, SwizzleW = i mod 4\<rparr>"

text \<open>The outermost block after instruction 0 wrote component x of temporary 0, and the
  same with a nested block pushed.\<close>

definition written_ctx :: fd3_compile_context where
  "written_ctx = upd_block (snd (ir3_instr_create vs_ctx 0 1 OPC_ZERO)) 0
                   (\<lambda>x. x\<lparr>temporaries := (temporaries x)[0 := Some 0]\<rparr>)"

definition nested_ctx :: fd3_compile_context where
  "nested_ctx = snd (push_block written_ctx)"

text \<open>A context extended by a new instruction of category 2 with one operand record.\<close>

definition with_operand :: "fd3_compile_context \<Rightarrow> fd3_compile_context" where
  "with_operand ctx =
     (case instr_create ctx 2 OPC_ADD_F of
        Inl e \<Rightarrow> ctx
      | Inr (k, ctx1) \<Rightarrow> snd (ir3_reg_create ctx1 k 0 {}))"

definition output_src :: "nat \<Rightarrow> tgsi_src_register" where
  "output_src n = \<lparr>File = TGSI_FILE_OUTPUT, Indirect = False, Dimension = False,
     Index = n, Absolute = False, Negate = False, SwizzleX = TGSI_SWIZZLE_X,
     SwizzleY = TGSI_SWIZZLE_Y, SwizzleZ = TGSI_SWIZZLE_Z, SwizzleW = TGSI_SWIZZLE_W\<rparr>"

text \<open>Four instructions of a shader: \<^verbatim>\<open>IF TEMP[0].x\<close>, \<^verbatim>\<open>MOV TEMP[1].x, TEMP[0]\<close>,
  \<^verbatim>\<open>ELSE\<close>, \<^verbatim>\<open>ENDIF\<close>.\<close>

definition tgsi_if :: tgsi_full_instruction where
  "tgsi_if = \<lparr>Opcode = TGSI_OPCODE_IF, Dst = null_dst, Src = [temp_src 0]\<rparr>"

definition tgsi_mov :: tgsi_full_instruction where
  "tgsi_mov = \<lparr>Opcode = TGSI_OPCODE_MOV, Dst = temp_dst 1 1, Src = [temp_src 0]\<rparr>"

definition tgsi_else :: tgsi_full_instruction where
  "tgsi_else = \<lparr>Opcode = TGSI_OPCODE_ELSE, Dst = null_dst, Src = []\<rparr>"

definition tgsi_endif :: tgsi_full_instruction where
  "tgsi_endif = \<lparr>Opcode = TGSI_OPCODE_ENDIF, Dst = null_dst, Src = []\<rparr>"

text \<open>The producer that operand \<open>r\<close> of instruction \<open>k\<close> refers to.\<close>

definition operand_instr :: "fd3_compile_context \<Rightarrow> nat \<Rightarrow> nat \<Rightarrow> nat option" where
  "operand_instr ctx k r = instr (regs (shader_instrs ctx ! k) ! r)"

subsection \<open>Shapes of instructions and operands\<close>

text \<open>The instruction that \<^verbatim>\<open>create_immed(ctx, 0.0)\<close> builds: a category 1 move whose
  source is the immediate \<open>0.0\<close>.\<close>

definition is_zero_immed :: "ir3_instruction \<Rightarrow> bool" where
  "is_zero_immed x \<longleftrightarrow> category x = 1 \<and> opc x = OPC_ZERO \<and> length (regs x) = 2
     \<and> flags (regs x ! 1) = {IR3_REG_IMMED} \<and> fim_val (regs x ! 1) = 0"

definition reg_valid :: "fd3_compile_context \<Rightarrow> nat \<times> nat \<Rightarrow> bool" where
  "reg_valid ctx reg \<longleftrightarrow> fst reg < length (shader_instrs ctx)
     \<and> snd reg < length (regs (shader_instrs ctx ! fst reg))"

subsection \<open>Notions for stating the lowering of one instruction\<close>


definition dst_slot :: "tgsi_dst_register \<Rightarrow> nat \<Rightarrow> nat \<Rightarrow> slot" where
  "dst_slot dst b i =
     (if File dst = TGSI_FILE_OUTPUT then Output_slot b (regid (Index dst) i)
      else Temporary_slot b (regid (Index dst) i))"

definition committed :: "fd3_compile_context \<Rightarrow> ir3_block list" where
  "committed ctx = foldl apply_update (shader_blocks ctx) (output_updates ctx)"

text \<open>The value that is live for a component of a source register without any node
  being synthesized: the slot of the current block for an output or a temporary, the
  slot of the outermost block for an input.\<close>

definition live_value ::
  "ir3_block list \<Rightarrow> nat \<Rightarrow> tgsi_src_register \<Rightarrow> nat \<Rightarrow> nat option" where
  "live_value bs b src chan =
     (if File src = TGSI_FILE_INPUT then
        (case block_input bs b (regid (Index src) chan) of Inl e \<Rightarrow> None | Inr v \<Rightarrow> v)
      else if File src = TGSI_FILE_OUTPUT then
        (case array_get (outputs (bs ! b)) (regid (Index src) chan) of
           Inl e \<Rightarrow> None | Inr v \<Rightarrow> v)
      else if File src = TGSI_FILE_TEMPORARY then
        (case array_get (temporaries (bs ! b)) (regid (Index src) chan) of
           Inl e \<Rightarrow> None | Inr v \<Rightarrow> v)
      else None)"


definition dst_reg :: "fd3_compile_context \<Rightarrow> tgsi_dst_register \<Rightarrow> nat \<Rightarrow> ir3_register" where
  "dst_reg ctx dst i =
     new_register (regid (Index dst + base_reg ctx (File dst)) i) (dst_flags ctx dst)"

definition ssa_reg ::
  "fd3_compile_context \<Rightarrow> tgsi_src_register \<Rightarrow> nat \<Rightarrow> nat \<Rightarrow> ir3_register" where
  "ssa_reg ctx src chan v =
     (new_register (regid (Index src + base_reg ctx (File src)) chan)
        (insert IR3_REG_SSA (src_flags ctx src)))\<lparr>instr := Some v\<rparr>"

definition const_reg :: "fd3_compile_context \<Rightarrow> tgsi_src_register \<Rightarrow> nat \<Rightarrow> ir3_register" where
  "const_reg ctx src chan =
     new_register (regid (Index src + base_reg ctx (File src)) chan) (src_flags ctx src)"

subsection \<open>The atomic group\<close>

text \<open>
  One step of an open atomic group: the three entry points of the emitter
  (\<^verbatim>\<open>instr_finish\<close>, \<^verbatim>\<open>instr_create\<close>, \<^verbatim>\<open>instr_clone\<close>) and the operations that
  \<^verbatim>\<open>vectorize\<close> performs between \<^verbatim>\<open>instr_atomic_start\<close> and \<^verbatim>\<open>instr_atomic_end\<close>:
  attaching the destination and the sources to the template, queueing the write of a
  component, and fixing up the destination and the sources of the instruction of a
  component. The states of the group that \<^verbatim>\<open>instr_atomic_start ctx\<close> opens are the
  contexts reached from it by such steps.
\<close>

inductive group_step :: "fd3_compile_context \<Rightarrow> fd3_compile_context \<Rightarrow> bool" where
  finish: "group_step c (instr_finish c)"
| create: "instr_create c cat op = Inr (k, c') \<Longrightarrow> group_step c c'"
| clone: "instr_clone c i = (k, c') \<Longrightarrow> group_step c c'"
| dst: "add_dst_reg c ins d chan = Inr (r, c') \<Longrightarrow> group_step c c'"
| attach: "vectorize_attach ins c a = Inr c' \<Longrightarrow> group_step c c'"
| queue: "ssa_dst c cur d i = Inr c' \<Longrightarrow> group_step c c'"
| fix_dst: "group_step c (upd_reg c reg f)"
| fix_src: "vectorize_fixup cur i c ja = Inr c' \<Longrightarrow> group_step c c'"

text \<open>An operation that leaves the atomic flag, the queue of deferred writes and the
  temporary and output slots of every block as they are.\<close>

definition queue_frame :: "fd3_compile_context \<Rightarrow> fd3_compile_context \<Rightarrow> bool" where
  "queue_frame c c' \<longleftrightarrow> atomic c' = atomic c \<and> output_updates c' = output_updates c
     \<and> map temporaries (shader_blocks c') = map temporaries (shader_blocks c)
     \<and> map outputs (shader_blocks c') = map outputs (shader_blocks c)"

subsection \<open>Notions for stating the fan-in construction\<close>




section \<open>Properties\<close>

declare imm_search.simps [simp del]
declare block_input.simps [simp del]
declare block_temporary.simps [simp del]
declare find_temporary.simps [simp del]
declare find_output.simps [simp del]

subsection \<open>Base offsets\<close>

lemma u32_small: "0 \<le> x \<Longrightarrow> x < 2 ^ 32 \<Longrightarrow> u32 x = nat x"
  by (simp add: u32_def)

lemma relocated_cases:
  "f \<in> relocated_files \<longleftrightarrow> f = TGSI_FILE_TEMPORARY \<or> f = TGSI_FILE_INPUT \<or> f = TGSI_FILE_OUTPUT
     \<or> f = TGSI_FILE_IMMEDIATE \<or> f = TGSI_FILE_CONSTANT"
  by (auto simp: relocated_files_def)

text \<open>
  Claim C5. Whenever \<^verbatim>\<open>compile_init\<close> succeeds on a scan whose highest indices fit the
  16-bit index field of a TGSI register, the constants start at 0, the immediates right
  after the last constant, the inputs after a prefix that is one register exactly for a
  fragment shader in full precision and empty otherwise, the outputs right after the
  last input, the temporaries right after the last output, and the register ranges of
  two different files never share a register of the same bank.
\<close>

theorem compile_init_base_offsets:
  assumes fm: "\<forall>f. - 1 \<le> file_max i f \<and> file_max i f < 32768"
    and ok: "compile_init s i pr proc = (TGSI_PARSE_OK, ctx)"
  shows "base_reg ctx TGSI_FILE_CONSTANT = 0
    \<and> base_reg ctx TGSI_FILE_IMMEDIATE = nat (file_max i TGSI_FILE_CONSTANT + 1)
    \<and> base_reg ctx TGSI_FILE_INPUT
        = (if so_type s = SHADER_FRAGMENT \<and> \<not> half_precision s then 1 else 0)
    \<and> base_reg ctx TGSI_FILE_OUTPUT
        = base_reg ctx TGSI_FILE_INPUT + nat (file_max i TGSI_FILE_INPUT + 1)
    \<and> base_reg ctx TGSI_FILE_TEMPORARY
        = base_reg ctx TGSI_FILE_OUTPUT + nat (file_max i TGSI_FILE_OUTPUT + 1)
    \<and> (\<forall>f g. f \<in> relocated_files \<and> g \<in> relocated_files \<and> f \<noteq> g
          \<longrightarrow> file_range ctx f \<inter> file_range ctx g = {})"
proof -
  have b: "- 1 \<le> file_max i f" "file_max i f < 32768" for f using fm by auto
  have ind: "indirect_files i \<inter> relocated_files = {}"
    using ok by (auto simp: compile_init_def Let_def split: if_splits)
  have ctx: "ctx = snd (compile_init s i pr proc)" using ok by simp
  have inf: "info ctx = i"
    using ind by (simp add: ctx compile_init_def Let_def cleared_context_def)
  have c: "base_reg ctx TGSI_FILE_CONSTANT = 0"
    using ind by (simp add: ctx compile_init_def Let_def cleared_context_def)
  have im: "base_reg ctx TGSI_FILE_IMMEDIATE = nat (file_max i TGSI_FILE_CONSTANT + 1)"
    using ind b[of TGSI_FILE_CONSTANT]
    by (simp add: ctx compile_init_def Let_def cleared_context_def u32_small)
  have inp: "base_reg ctx TGSI_FILE_INPUT
        = (if so_type s = SHADER_FRAGMENT \<and> \<not> half_precision s then 1 else 0)"
    using ind by (simp add: ctx compile_init_def Let_def cleared_context_def)
  have out: "base_reg ctx TGSI_FILE_OUTPUT
        = base_reg ctx TGSI_FILE_INPUT + nat (file_max i TGSI_FILE_INPUT + 1)"
    using ind b[of TGSI_FILE_INPUT]
    by (simp add: ctx compile_init_def Let_def cleared_context_def u32_small nat_add_distrib)
  have tmp: "base_reg ctx TGSI_FILE_TEMPORARY
        = base_reg ctx TGSI_FILE_OUTPUT + nat (file_max i TGSI_FILE_OUTPUT + 1)"
    using ind b[of TGSI_FILE_INPUT] b[of TGSI_FILE_OUTPUT]
    by (simp add: ctx compile_init_def Let_def cleared_context_def u32_small nat_add_distrib)
  have disj: "file_range ctx f \<inter> file_range ctx g = {}"
    if "f \<in> relocated_files" "g \<in> relocated_files" "f \<noteq> g" for f g
    using that c im out tmp
    by (auto simp: relocated_cases file_range_def file_bank_def inf)
  show ?thesis using c im inp out tmp disj by blast
qed

theorem compile_init_base_offsets_witness:
  "compile_init fs_so fs_info TGSI_PARSE_OK TGSI_PROCESSOR_FRAGMENT = (TGSI_PARSE_OK, fs_ctx)
   \<and> base_reg fs_ctx TGSI_FILE_CONSTANT = 0 \<and> base_reg fs_ctx TGSI_FILE_IMMEDIATE = 4
   \<and> base_reg fs_ctx TGSI_FILE_INPUT = 1 \<and> base_reg fs_ctx TGSI_FILE_OUTPUT = 3
   \<and> base_reg fs_ctx TGSI_FILE_TEMPORARY = 4
   \<and> file_range fs_ctx TGSI_FILE_OUTPUT \<inter> file_range fs_ctx TGSI_FILE_TEMPORARY = {}"
proof -
  have fm: "\<forall>f. - 1 \<le> file_max fs_info f \<and> file_max fs_info f < 32768"
    by (simp add: fs_info_def)
  have ok: "compile_init fs_so fs_info TGSI_PARSE_OK TGSI_PROCESSOR_FRAGMENT
              = (TGSI_PARSE_OK, fs_ctx)"
    by (simp add: fs_ctx_def compile_init_def fs_info_def Let_def)
  show ?thesis
    using compile_init_base_offsets[OF fm ok] ok
    by (simp add: fs_info_def fs_so_def relocated_files_def)
qed

subsection \<open>The deferred-write queue\<close>

lemma nth_update_at:
  "(bs[b := x]) ! k = (if k = b \<and> b < length bs then x else bs ! k)"
  by (cases "b < length bs") (auto simp: nth_list_update list_update_beyond)

lemma apply_update_valid [simp]:
  "slot_valid (apply_update bs u) p = slot_valid bs p"
  by (cases u; cases "fst u"; cases p) (auto simp: nth_update_at)

lemma apply_update_value:
  "slot_valid bs p \<Longrightarrow>
   slot_value (apply_update bs (q, v)) p = (if p = q then Some v else slot_value bs p)"
  by (cases q; cases p) (auto simp: nth_update_at)

lemma foldl_apply_update_valid [simp]:
  "slot_valid (foldl apply_update bs us) p = slot_valid bs p"
  by (induction us arbitrary: bs) auto

lemma foldl_apply_update_value:
  "slot_valid bs p \<Longrightarrow>
   slot_value (foldl apply_update bs us) p
     = (case map_of (rev us) p of Some v \<Rightarrow> Some v | None \<Rightarrow> slot_value bs p)"
proof (induction us rule: rev_induct)
  case Nil
  then show ?case by simp
next
  case (snoc u us)
  obtain q v where u: "u = (q, v)" by (cases u)
  from snoc show ?case
    by (simp add: u apply_update_value)
qed

subsection \<open>The immediate pool\<close>

lemma imm_search_found:
  "imm_search imms val n i = Inr (j, fnd) \<Longrightarrow> i \<le> n \<Longrightarrow>
     i \<le> j \<and> j \<le> n
   \<and> (\<forall>k. i \<le> k \<and> k < j \<longrightarrow> k < length imms \<and> imms ! k \<noteq> val \<and> imms ! k \<noteq> - val)
   \<and> (j < n \<longrightarrow> j < length imms \<and> (imms ! j = val \<or> imms ! j = - val)
                 \<and> fnd = Some (imms ! j \<noteq> val))
   \<and> (j = n \<longrightarrow> fnd = None)"
proof (induction imms val n i rule: imm_search.induct)
  case (1 imms val n i)
  note eq = imm_search.simps[of imms val n i]
  show ?case
  proof (cases "i < n")
    case False
    with "1.prems" show ?thesis by (auto simp: eq)
  next
    case True
    show ?thesis
    proof (cases "i < length imms")
      case False
      with True "1.prems" show ?thesis by (simp add: eq array_get_def)
    next
      case il: True
      show ?thesis
      proof (cases "imms ! i = val \<or> imms ! i = - val")
        case True
        with \<open>i < n\<close> il "1.prems" show ?thesis
          by (auto simp: eq array_get_def split: if_splits)
      next
        case False
        with \<open>i < n\<close> il "1.prems" have rec: "imm_search imms val n (Suc i) = Inr (j, fnd)"
          by (simp add: eq array_get_def)
        have ih: "Suc i \<le> j \<and> j \<le> n
   \<and> (\<forall>k. Suc i \<le> k \<and> k < j \<longrightarrow> k < length imms \<and> imms ! k \<noteq> val \<and> imms ! k \<noteq> - val)
   \<and> (j < n \<longrightarrow> j < length imms \<and> (imms ! j = val \<or> imms ! j = - val)
                 \<and> fnd = Some (imms ! j \<noteq> val))
   \<and> (j = n \<longrightarrow> fnd = None)"
          using "1.IH"[of "imms ! i"] False il \<open>i < n\<close> rec
          by (simp add: array_get_def)
        have "k < length imms \<and> imms ! k \<noteq> val \<and> imms ! k \<noteq> - val" if "i \<le> k" "k < j" for k
        proof (cases "k = i")
          case True then show ?thesis using False il by simp
        next
          case False then show ?thesis using that ih by auto
        qed
        with ih show ?thesis by auto
      qed
    qed
  qed
qed

lemma imm_search_first:
  "\<forall>k. i \<le> k \<and> k < j \<longrightarrow> k < length imms \<and> imms ! k \<noteq> val \<and> imms ! k \<noteq> - val \<Longrightarrow>
   i \<le> j \<Longrightarrow> j < n \<Longrightarrow> j < length imms \<Longrightarrow> imms ! j = val \<or> imms ! j = - val \<Longrightarrow>
   imm_search imms val n i = Inr (j, Some (imms ! j \<noteq> val))"
proof (induction imms val n i rule: imm_search.induct)
  case (1 imms val n i)
  note eq = imm_search.simps[of imms val n i]
  show ?case
  proof (cases "i = j")
    case True
    with "1.prems" show ?thesis
      by (subst imm_search.simps) (auto simp: array_get_def)
  next
    case False
    with "1.prems" have lt: "i < j" "i < n" "i < length imms" "imms ! i \<noteq> val" "imms ! i \<noteq> - val"
      by auto
    have "imm_search imms val n (Suc i) = Inr (j, Some (imms ! j \<noteq> val))"
      using "1.IH"[of "imms ! i"] lt "1.prems" by (auto simp: array_get_def)
    with lt show ?thesis by (simp add: eq array_get_def)
  qed
qed

text \<open>
  What \<^verbatim>\<open>get_immediate\<close> folds is the negation of the 32-bit integer: when a request
  for \<open>v\<close> has succeeded, a request for \<^verbatim>\<open>-v\<close> as \<^verbatim>\<open>uint32_t\<close> arithmetic computes it
  is answered from the same slot.
\<close>

lemma get_immediate_integer_negation:
  assumes first: "get_immediate ctx v = Inr (r1, ctx1)"
  shows "\<exists>r2. get_immediate ctx1 (- v) = Inr (r2, ctx1)
           \<and> Index r2 = Index r1 \<and> SwizzleX r2 = SwizzleX r1 \<and> SwizzleY r2 = SwizzleY r1
           \<and> SwizzleZ r2 = SwizzleZ r1 \<and> SwizzleW r2 = SwizzleW r1
           \<and> File r2 = TGSI_FILE_IMMEDIATE
           \<and> (Negate r2 \<longleftrightarrow> v \<noteq> - v \<and> \<not> Negate r1)"
proof -
  define imms where "imms = immediates (so ctx)"
  define n where "n = immediate_idx ctx"
  from first obtain j fnd where s: "imm_search imms v n 0 = Inr (j, fnd)"
    by (auto simp: get_immediate_def imms_def n_def split: sum.splits)
  note f = imm_search_found[OF s, simplified]
  show ?thesis
  proof (cases "j = n")
    case True
    with first s have il: "n < length imms"
      and c1: "ctx1 = ctx\<lparr>so := (so ctx)\<lparr>immediates := imms[n := v],
                                        immediates_count := n div 4 + 1\<rparr>,
                         immediate_idx := n + 1\<rparr>"
      and r1: "Index r1 = n div 4" "SwizzleX r1 = n mod 4" "SwizzleY r1 = n mod 4"
              "SwizzleZ r1 = n mod 4" "SwizzleW r1 = n mod 4" "\<not> Negate r1"
      by (auto simp: get_immediate_def imms_def n_def split: if_splits)
    have s2: "imm_search (imms[n := v]) (- v) (n + 1) 0 = Inr (n, Some ((imms[n := v]) ! n \<noteq> - v))"
      using f il True by (intro imm_search_first) (auto simp: nth_list_update)
    show ?thesis
      using s2 il r1 by (simp add: get_immediate_def c1)
  next
    case False
    with f have jn: "j < n" "j < length imms" "imms ! j = v \<or> imms ! j = - v"
      "fnd = Some (imms ! j \<noteq> v)" by auto
    with first s False have c1: "ctx1 = ctx"
      and r1: "Index r1 = j div 4" "SwizzleX r1 = j mod 4" "SwizzleY r1 = j mod 4"
              "SwizzleZ r1 = j mod 4" "SwizzleW r1 = j mod 4" "Negate r1 = (imms ! j \<noteq> v)"
      by (auto simp: get_immediate_def imms_def n_def split: if_splits)
    have s2: "imm_search imms (- v) n 0 = Inr (j, Some (imms ! j \<noteq> - v))"
      using f jn by (intro imm_search_first) auto
    show ?thesis
      using s2 jn r1 by (auto simp: get_immediate_def c1 imms_def[symmetric] n_def[symmetric])
  qed
qed

text \<open>
  Claim C8 at its failing input. The values requested are the bit patterns of floats
  (\<^verbatim>\<open>fui(-1.0)\<close> is \<open>0xbf800000\<close>, \<^verbatim>\<open>fui(1.0)\<close> is \<open>0x3f800000\<close>), and the negate flag
  of a source operand negates a float, that is, flips the sign bit of the pattern. The
  second comparison of \<^verbatim>\<open>get_immediate\<close> is with \<^verbatim>\<open>-val\<close>, the negation of the
  pattern as an integer. So the two requests of \<^verbatim>\<open>create_clamp_imm(fui(-1.0), fui(1.0))\<close>
  take two slots and neither reference is negated, and so do a request for \<open>1.0\<close>
  followed by one for \<open>-1.0\<close>; and in a pool whose first slot holds \<open>4.0\<close>
  (\<open>0x40800000\<close>, the integer negation of \<open>0xbf800000\<close>) a request for \<open>-1.0\<close> is
  answered with that slot and the negate flag, an operand that reads \<open>-4.0\<close>.
\<close>

theorem get_immediate_float_negation:
  "(case get_immediate vs_ctx 0xbf800000 of
      Inl e \<Rightarrow> False
    | Inr (r1, c1) \<Rightarrow>
        r1 = imm_ref 0 False \<and> immediate_idx c1 = 1
        \<and> (case get_immediate c1 0x3f800000 of
             Inl e \<Rightarrow> False
           | Inr (r2, c2) \<Rightarrow>
               r2 = imm_ref 1 False \<and> immediate_idx c2 = 2
               \<and> take 2 (immediates (so c2)) = [0xbf800000, 0x3f800000]))
   \<and> (case get_immediate vs_ctx 0x3f800000 of
        Inl e \<Rightarrow> False
      | Inr (r1, c1) \<Rightarrow>
          r1 = imm_ref 0 False \<and> immediate_idx c1 = 1
          \<and> (case get_immediate c1 0xbf800000 of
               Inl e \<Rightarrow> False
             | Inr (r2, c2) \<Rightarrow>
                 r2 = imm_ref 1 False \<and> immediate_idx c2 = 2
                 \<and> take 2 (immediates (so c2)) = [0x3f800000, 0xbf800000]))
   \<and> (case get_immediate vs_ctx 0x40800000 of
        Inl e \<Rightarrow> False
      | Inr (r1, c1) \<Rightarrow>
          r1 = imm_ref 0 False \<and> immediate_idx c1 = 1
          \<and> (case get_immediate c1 0xbf800000 of
               Inl e \<Rightarrow> False
             | Inr (r2, c2) \<Rightarrow>
                 r2 = imm_ref 0 True \<and> immediate_idx c2 = 1
                 \<and> take 1 (immediates (so c2)) = [0x40800000]))"
  by code_simp

subsection \<open>Boundary nodes\<close>

lemma map_update_same: "f y = f (xs ! b) \<Longrightarrow> map f (xs[b := y]) = map f xs"
  by (cases "b < length xs")
     (simp_all add: map_update list_update_beyond list_eq_iff_nth_eq nth_list_update)

lemma create_input_frame:
  "create_input c b i n = (k, c') \<Longrightarrow>
     k = length (shader_instrs c) \<and> shader_blocks c' = shader_blocks c
     \<and> (\<exists>x. shader_instrs c' = shader_instrs c @ [x] \<and> opc x = OPC_META_INPUT
             \<and> category x = - 1 \<and> instr_block x = b \<and> inout_block x = Some b
             \<and> length (regs x) = (if i = None then 1 else 2)
             \<and> (i \<noteq> None \<longrightarrow> instr (regs x ! 1) = i \<and> flags (regs x ! 1) = {IR3_REG_SSA}))
     \<and> block c' = block c \<and> so c' = so c"
  by (cases i)
     (auto simp: create_input_def ir3_instr_create_def ir3_reg_create_def upd_instr_def
        upd_reg_def new_instruction_def new_register_def Let_def nth_append)

lemma block_temporary_frame:
  "block_temporary c b n = Inr (r, c') \<Longrightarrow>
     map temporaries (shader_blocks c') = map temporaries (shader_blocks c)
   \<and> map parent (shader_blocks c') = map parent (shader_blocks c)
   \<and> map outputs (shader_blocks c') = map outputs (shader_blocks c)
   \<and> map (\<lambda>x. length (inputs x)) (shader_blocks c')
       = map (\<lambda>x. length (inputs x)) (shader_blocks c)
   \<and> (\<exists>new. shader_instrs c' = shader_instrs c @ new)
   \<and> block c' = block c \<and> so c' = so c"
proof (induction c b n arbitrary: r c' rule: block_temporary.induct)
  case (1 ctx b n)
  note eq = block_temporary.simps[of ctx b n]
  show ?case
  proof (cases "n < length (temporaries (shader_blocks ctx ! b))")
    case False
    with "1.prems" show ?thesis by (simp add: eq array_get_def)
  next
    case nt: True
    show ?thesis
    proof (cases "parent (shader_blocks ctx ! b)")
      case None
      with "1.prems" nt show ?thesis by (simp add: eq array_get_def)
    next
      case (Some p)
      show ?thesis
      proof (cases "temporaries (shader_blocks ctx ! b) ! n")
        case (Some t)
        with "1.prems" nt \<open>parent (shader_blocks ctx ! b) = Some p\<close> show ?thesis
          by (simp add: eq array_get_def)
      next
        case None
        note tn = None
        show ?thesis
        proof (cases "n < length (inputs (shader_blocks ctx ! b))")
          case False
          with "1.prems" nt Some tn show ?thesis by (simp add: eq array_get_def)
        next
          case ni: True
          show ?thesis
          proof (cases "inputs (shader_blocks ctx ! b) ! n")
            case (Some v)
            with "1.prems" nt \<open>parent (shader_blocks ctx ! b) = Some p\<close> tn ni
            have "create_input ctx b (Some v) n = (the r, c')"
              by (auto simp: eq array_get_def split: prod.splits)
            from create_input_frame[OF this] show ?thesis by auto
          next
            case None
            show ?thesis
            proof (cases "p < b")
              case False
              with "1.prems" nt Some tn ni None show ?thesis by (simp add: eq array_get_def)
            next
              case True
              from "1.prems" nt Some tn ni None True
              obtain v c1 where rec: "block_temporary ctx p n = Inr (v, c1)"
                by (auto simp: eq array_get_def split: sum.splits)
              define c2 where "c2 = upd_block c1 b (\<lambda>x. x\<lparr>inputs := (inputs x)[n := v]\<rparr>)"
              from "1.prems" nt Some tn ni None True rec
              have ci: "create_input c2 b (inputs (shader_blocks c2 ! b) ! n) n = (the r, c')"
                by (auto simp: eq array_get_def c2_def split: prod.splits)
              have ih: "map temporaries (shader_blocks c1) = map temporaries (shader_blocks ctx)
   \<and> map parent (shader_blocks c1) = map parent (shader_blocks ctx)
   \<and> map outputs (shader_blocks c1) = map outputs (shader_blocks ctx)
   \<and> map (\<lambda>x. length (inputs x)) (shader_blocks c1)
       = map (\<lambda>x. length (inputs x)) (shader_blocks ctx)
   \<and> (\<exists>new. shader_instrs c1 = shader_instrs ctx @ new)
   \<and> block c1 = block ctx \<and> so c1 = so ctx"
                using "1.IH"[OF _ Some _ _ _ True rec] nt tn ni None
                by (simp add: array_get_def)
              have c2f: "map temporaries (shader_blocks c2) = map temporaries (shader_blocks c1)
   \<and> map parent (shader_blocks c2) = map parent (shader_blocks c1)
   \<and> map outputs (shader_blocks c2) = map outputs (shader_blocks c1)
   \<and> map (\<lambda>x. length (inputs x)) (shader_blocks c2)
       = map (\<lambda>x. length (inputs x)) (shader_blocks c1)
   \<and> shader_instrs c2 = shader_instrs c1 \<and> block c2 = block c1 \<and> so c2 = so c1"
                by (simp add: c2_def upd_block_def map_update_same)
              from create_input_frame[OF ci] ih c2f show ?thesis by auto
            qed
          qed
        qed
      qed
    qed
  qed
qed






subsection \<open>Reads of undefined registers\<close>

lemma get_reg_upd_reg:
  "reg_valid c reg \<Longrightarrow> get_reg (upd_reg c reg f) reg = f (get_reg c reg)"
  by (simp add: reg_valid_def get_reg_def upd_reg_def upd_instr_def)

lemma reg_valid_upd_reg [simp]: "reg_valid (upd_reg c reg' f) reg = reg_valid c reg"
  by (auto simp: reg_valid_def upd_reg_def upd_instr_def nth_update_at)

lemma upd_reg_fields [simp]:
  "shader_blocks (upd_reg c reg f) = shader_blocks c"
  "block (upd_reg c reg f) = block c"
  "so (upd_reg c reg f) = so c"
  "length (shader_instrs (upd_reg c reg f)) = length (shader_instrs c)"
  by (simp_all add: upd_reg_def upd_instr_def)

lemma reg_valid_append:
  "reg_valid c reg \<Longrightarrow> shader_instrs c' = shader_instrs c @ new \<Longrightarrow>
   reg_valid c' reg \<and> get_reg c' reg = get_reg c reg"
  by (simp add: reg_valid_def get_reg_def nth_append)

lemma create_immed_frame:
  "create_immed c v = Inr (z, c') \<Longrightarrow>
     z = length (shader_instrs c) \<and> shader_blocks c' = shader_blocks c
   \<and> block c' = block c
   \<and> (\<exists>x. shader_instrs c' = shader_instrs c @ [x] \<and> category x = 1 \<and> opc x = OPC_ZERO
           \<and> length (regs x) = 2 \<and> flags (regs x ! 1) = {IR3_REG_IMMED}
           \<and> fim_val (regs x ! 1) = v \<and> Some (instr_block x) = block c)"
  by (auto simp: create_immed_def ir3_instr_create_def ir3_reg_create_def upd_instr_def
        upd_reg_def new_instruction_def new_register_def Let_def nth_append
        split: option.splits)

lemma create_immed_ok:
  "block c = Some b \<Longrightarrow> \<exists>c'. create_immed c v = Inr (length (shader_instrs c), c')"
  by (auto simp: create_immed_def ir3_instr_create_def ir3_reg_create_def Let_def
        split: option.splits)

text \<open>What \<^verbatim>\<open>ssa_src\<close> does after the \<^verbatim>\<open>switch\<close> left the operand flagged SSA with no
  producer.\<close>

lemma ssa_src_substitutes:
  assumes rv: "reg_valid c3 reg" and blk: "block c3 = Some b"
    and fl: "IR3_REG_SSA \<in> flags (get_reg c3 reg)" and un: "instr (get_reg c3 reg) = None"
    and lk: "ssa_src_lookup ctx reg src (regid (Index src) chan) = Inr c3"
  shows "\<exists>ctx'. ssa_src ctx reg src chan = Inr ctx'
           \<and> length (shader_instrs ctx') = Suc (length (shader_instrs c3))
           \<and> is_zero_immed (shader_instrs ctx' ! length (shader_instrs c3))
           \<and> instr (get_reg ctx' reg) = Some (length (shader_instrs c3))
           \<and> IR3_REG_SSA \<in> flags (get_reg ctx' reg)"
proof -
  from create_immed_ok[OF blk, of 0] obtain c4
    where ci: "create_immed c3 0 = Inr (length (shader_instrs c3), c4)" by blast
  from create_immed_frame[OF ci] obtain x where
    x: "shader_instrs c4 = shader_instrs c3 @ [x]" "is_zero_immed x"
    by (auto simp: is_zero_immed_def)
  from reg_valid_append[OF rv x(1)] have rv4: "reg_valid c4 reg" "get_reg c4 reg = get_reg c3 reg"
    by auto
  have res: "ssa_src ctx reg src chan
               = Inr (set_reg_instr c4 reg (Some (length (shader_instrs c3))))"
    using lk fl un ci by (simp add: ssa_src_def)
  have nth: "shader_instrs (set_reg_instr c4 reg (Some (length (shader_instrs c3))))
               ! length (shader_instrs c3) = x"
    using rv x(1)
    by (simp add: set_reg_instr_def upd_reg_def upd_instr_def reg_valid_def nth_list_update)
  show ?thesis
    using res x rv4 fl nth
    by (simp add: set_reg_instr_def get_reg_upd_reg)
qed

text \<open>
  Claim C7, as amended. For an operand of the input file whose slot in the outermost
  block is empty, and for an operand of the temporary file resolved in the outermost
  block whose slot is empty, \<^verbatim>\<open>ssa_src\<close> creates one new instruction, the move of the
  immediate \<open>0.0\<close>, and makes it the producer of the operand. For an operand of the
  output file whose slot in the current block is empty, \<^verbatim>\<open>ssa_src\<close> fails its
  assertion. Whenever \<^verbatim>\<open>ssa_src\<close> returns for an operand of one of the three files, the
  operand is flagged SSA and has a producer.
\<close>

theorem ssa_src_undefined_read:
  assumes rv: "reg_valid ctx reg" and blk: "block ctx = Some b"
  shows
    "((File src = TGSI_FILE_INPUT
         \<and> block_input (shader_blocks ctx) b (regid (Index src) chan) = Inr None)
      \<or> (File src = TGSI_FILE_TEMPORARY \<and> parent (shader_blocks ctx ! b) = None
         \<and> array_get (temporaries (shader_blocks ctx ! b)) (regid (Index src) chan) = Inr None)
      \<longrightarrow> (\<exists>ctx'. ssa_src ctx reg src chan = Inr ctx'
             \<and> length (shader_instrs ctx') = Suc (length (shader_instrs ctx))
             \<and> is_zero_immed (shader_instrs ctx' ! length (shader_instrs ctx))
             \<and> instr (get_reg ctx' reg) = Some (length (shader_instrs ctx))))
   \<and> (File src = TGSI_FILE_OUTPUT
         \<and> array_get (outputs (shader_blocks ctx ! b)) (regid (Index src) chan) = Inr None
      \<longrightarrow> ssa_src ctx reg src chan = Inl Compile_error)
   \<and> (\<forall>ctx'. File src \<in> {TGSI_FILE_INPUT, TGSI_FILE_OUTPUT, TGSI_FILE_TEMPORARY}
         \<and> ssa_src ctx reg src chan = Inr ctx'
      \<longrightarrow> IR3_REG_SSA \<in> flags (get_reg ctx' reg) \<and> instr (get_reg ctx' reg) \<noteq> None)"
proof -
  define n where "n = regid (Index src) chan"
  have rvs: "reg_valid (set_ssa ctx reg) reg" using rv by (simp add: set_ssa_def)
  have ssa: "IR3_REG_SSA \<in> flags (get_reg (set_ssa ctx reg) reg)"
    using rv by (simp add: set_ssa_def get_reg_upd_reg)
  have a: "\<exists>ctx'. ssa_src ctx reg src chan = Inr ctx'
             \<and> length (shader_instrs ctx') = Suc (length (shader_instrs ctx))
             \<and> is_zero_immed (shader_instrs ctx' ! length (shader_instrs ctx))
             \<and> instr (get_reg ctx' reg) = Some (length (shader_instrs ctx))"
    if "(File src = TGSI_FILE_INPUT \<and> block_input (shader_blocks ctx) b n = Inr None)
      \<or> (File src = TGSI_FILE_TEMPORARY \<and> parent (shader_blocks ctx ! b) = None
         \<and> array_get (temporaries (shader_blocks ctx ! b)) n = Inr None)"
  proof -
    define c3 where "c3 = set_reg_instr (set_ssa ctx reg) reg None"
    have bt: "block_temporary (set_ssa ctx reg) b n = Inr (None, set_ssa ctx reg)"
      if "parent (shader_blocks ctx ! b) = None"
        "array_get (temporaries (shader_blocks ctx ! b)) n = Inr None"
      using that by (subst block_temporary.simps) (simp add: set_ssa_def)
    have lk: "ssa_src_lookup ctx reg src (regid (Index src) chan) = Inr c3"
      using that blk bt by (auto simp: ssa_src_lookup_def c3_def n_def[symmetric])
    have p: "reg_valid c3 reg" "block c3 = Some b" "IR3_REG_SSA \<in> flags (get_reg c3 reg)"
      "instr (get_reg c3 reg) = None" "length (shader_instrs c3) = length (shader_instrs ctx)"
      using rvs ssa blk by (simp_all add: c3_def set_reg_instr_def get_reg_upd_reg set_ssa_def)
    from ssa_src_substitutes[OF p(1-4) lk] p(5) show ?thesis by auto
  qed
  have b: "ssa_src ctx reg src chan = Inl Compile_error"
    if "File src = TGSI_FILE_OUTPUT"
      "array_get (outputs (shader_blocks ctx ! b)) n = Inr None"
    using that blk by (simp add: ssa_src_def ssa_src_lookup_def n_def[symmetric])
  have c: "IR3_REG_SSA \<in> flags (get_reg ctx' reg) \<and> instr (get_reg ctx' reg) \<noteq> None"
    if f: "File src \<in> {TGSI_FILE_INPUT, TGSI_FILE_OUTPUT, TGSI_FILE_TEMPORARY}"
      and r: "ssa_src ctx reg src chan = Inr ctx'" for ctx'
  proof -
    from r obtain c3 where lk: "ssa_src_lookup ctx reg src n = Inr c3"
      by (auto simp: ssa_src_def n_def split: sum.splits)
    have "\<exists>v. reg_valid c3 reg \<and> IR3_REG_SSA \<in> flags (get_reg c3 reg)
             \<and> instr (get_reg c3 reg) = v \<and> block c3 = Some b"
    proof -
      consider "File src = TGSI_FILE_INPUT" | "File src = TGSI_FILE_OUTPUT"
        | "File src = TGSI_FILE_TEMPORARY" using f by auto
      then show ?thesis
      proof cases
        case 1
        with lk blk obtain v where "c3 = set_reg_instr (set_ssa ctx reg) reg v"
          by (auto simp: ssa_src_lookup_def split: sum.splits)
        then show ?thesis using rvs ssa blk
          by (simp add: set_reg_instr_def get_reg_upd_reg set_ssa_def)
      next
        case 2
        with lk blk obtain v where "c3 = set_reg_instr (set_ssa ctx reg) reg v"
          by (auto simp: ssa_src_lookup_def split: sum.splits if_splits)
        then show ?thesis using rvs ssa blk
          by (simp add: set_reg_instr_def get_reg_upd_reg set_ssa_def)
      next
        case 3
        with lk blk obtain v c2 where bt: "block_temporary (set_ssa ctx reg) b n = Inr (v, c2)"
          and c3: "c3 = set_reg_instr c2 reg v"
          by (auto simp: ssa_src_lookup_def split: sum.splits)
        from block_temporary_frame[OF bt] obtain new where
          fr: "shader_instrs c2 = shader_instrs (set_ssa ctx reg) @ new"
            "block c2 = block (set_ssa ctx reg)" by auto
        from reg_valid_append[OF rvs fr(1)] ssa fr(2) blk show ?thesis
          by (simp add: c3 set_reg_instr_def get_reg_upd_reg set_ssa_def)
      qed
    qed
    then have p: "reg_valid c3 reg" "IR3_REG_SSA \<in> flags (get_reg c3 reg)" "block c3 = Some b"
      by auto
    show ?thesis
    proof (cases "instr (get_reg c3 reg)")
      case None
      from ssa_src_substitutes[OF p(1) p(3) p(2) None lk[unfolded n_def]] r
      show ?thesis by auto
    next
      case (Some v)
      with r lk p have "ctx' = c3" by (simp add: ssa_src_def n_def)
      with Some p show ?thesis by simp
    qed
  qed
  show ?thesis using a b c unfolding n_def by blast
qed

theorem ssa_src_undefined_read_witness:
  "\<exists>ctx'. ssa_src (with_operand vs_ctx) (0, 0) (temp_src 0) 0 = Inr ctx'
           \<and> is_zero_immed (shader_instrs ctx' ! 1)
           \<and> instr (get_reg ctx' (0, 0)) = Some 1"
proof -
  have rv: "reg_valid (with_operand vs_ctx) (0, 0)" by code_simp
  have blk: "block (with_operand vs_ctx) = Some 0" by code_simp
  have len: "length (shader_instrs (with_operand vs_ctx)) = 1" by code_simp
  have f: "File (temp_src 0) = TGSI_FILE_TEMPORARY" by code_simp
  have p: "parent (shader_blocks (with_operand vs_ctx) ! 0) = None" by code_simp
  have "(case array_get (temporaries (shader_blocks (with_operand vs_ctx) ! 0))
                (regid (Index (temp_src 0)) 0) of Inl e \<Rightarrow> False | Inr v \<Rightarrow> v = None)"
    by code_simp
  then have t: "array_get (temporaries (shader_blocks (with_operand vs_ctx) ! 0))
                  (regid (Index (temp_src 0)) 0) = Inr None"
    by (auto split: sum.splits)
  from ssa_src_undefined_read[OF rv blk, of "temp_src 0" 0] f p t len
  show ?thesis by auto
qed

text \<open>The claim as it stands fails twice. A read of an output that the current block
  never wrote stops at the assertion of \<^verbatim>\<open>ssa_src\<close>; and a read, in a nested block, of
  a temporary that no scope ever wrote gets a \<^verbatim>\<open>meta:input\<close> node without a source as
  its producer, not a move of \<open>0.0\<close>.\<close>

theorem ssa_src_undefined_read_counterexample:
  "(case ssa_src (with_operand vs_ctx) (0, 0) (output_src 0) 0 of
      Inl e \<Rightarrow> e = Compile_error
    | Inr c \<Rightarrow> False)
   \<and> (case ssa_src (with_operand nested_ctx) (1, 0) (temp_src 1) 0 of
        Inl e \<Rightarrow> False
      | Inr c \<Rightarrow>
          (case instr (get_reg c (1, 0)) of
             None \<Rightarrow> False
           | Some k \<Rightarrow> opc (shader_instrs c ! k) = OPC_META_INPUT
                        \<and> length (regs (shader_instrs c ! k)) = 1
                        \<and> \<not> is_zero_immed (shader_instrs c ! k)))"
  by code_simp


subsection \<open>The atomic group\<close>

lemma queue_frame_refl [simp]: "queue_frame c c"
  by (simp add: queue_frame_def)

lemma queue_frame_trans: "queue_frame a b \<Longrightarrow> queue_frame b c \<Longrightarrow> queue_frame a c"
  by (simp add: queue_frame_def)

lemma upd_reg_queue [simp]:
  "atomic (upd_reg c reg f) = atomic c"
  "output_updates (upd_reg c reg f) = output_updates c"
  by (simp_all add: upd_reg_def upd_instr_def)

lemma queue_frame_upd_reg [simp]: "queue_frame c (upd_reg c reg f)"
  by (simp add: queue_frame_def upd_reg_def upd_instr_def)

lemma queue_frame_reg_create: "queue_frame c (snd (ir3_reg_create c i n fl))"
  by (simp add: queue_frame_def ir3_reg_create_def upd_instr_def)

lemma create_input_queue:
  "create_input c b i n = (k, c') \<Longrightarrow>
     atomic c' = atomic c \<and> output_updates c' = output_updates c"
  by (cases i)
     (auto simp: create_input_def ir3_instr_create_def ir3_reg_create_def upd_instr_def
        upd_reg_def Let_def)

lemma block_temporary_queue:
  "block_temporary c b n = Inr (r, c') \<Longrightarrow>
     atomic c' = atomic c \<and> output_updates c' = output_updates c"
proof (induction c b n arbitrary: r c' rule: block_temporary.induct)
  case (1 ctx b n)
  note eq = block_temporary.simps[of ctx b n]
  show ?case
  proof (cases "n < length (temporaries (shader_blocks ctx ! b))")
    case False
    with "1.prems" show ?thesis by (simp add: eq array_get_def)
  next
    case nt: True
    show ?thesis
    proof (cases "parent (shader_blocks ctx ! b)")
      case None
      with "1.prems" nt show ?thesis by (simp add: eq array_get_def)
    next
      case (Some p)
      show ?thesis
      proof (cases "temporaries (shader_blocks ctx ! b) ! n")
        case (Some t)
        with "1.prems" nt \<open>parent (shader_blocks ctx ! b) = Some p\<close> show ?thesis
          by (simp add: eq array_get_def)
      next
        case None
        note tn = None
        show ?thesis
        proof (cases "n < length (inputs (shader_blocks ctx ! b))")
          case False
          with "1.prems" nt Some tn show ?thesis by (simp add: eq array_get_def)
        next
          case ni: True
          show ?thesis
          proof (cases "inputs (shader_blocks ctx ! b) ! n")
            case (Some v)
            with "1.prems" nt \<open>parent (shader_blocks ctx ! b) = Some p\<close> tn ni
            have "create_input ctx b (Some v) n = (the r, c')"
              by (auto simp: eq array_get_def split: prod.splits)
            from create_input_queue[OF this] show ?thesis by auto
          next
            case None
            show ?thesis
            proof (cases "p < b")
              case False
              with "1.prems" nt Some tn ni None show ?thesis by (simp add: eq array_get_def)
            next
              case True
              from "1.prems" nt Some tn ni None True
              obtain v c1 where rec: "block_temporary ctx p n = Inr (v, c1)"
                by (auto simp: eq array_get_def split: sum.splits)
              define c2 where "c2 = upd_block c1 b (\<lambda>x. x\<lparr>inputs := (inputs x)[n := v]\<rparr>)"
              from "1.prems" nt Some tn ni None True rec
              have ci: "create_input c2 b (inputs (shader_blocks c2 ! b) ! n) n = (the r, c')"
                by (auto simp: eq array_get_def c2_def split: prod.splits)
              have ih: "atomic c1 = atomic ctx \<and> output_updates c1 = output_updates ctx"
                using "1.IH"[OF _ Some _ _ _ True rec] nt tn ni None
                by (simp add: array_get_def)
              have c2f: "atomic c2 = atomic c1 \<and> output_updates c2 = output_updates c1"
                by (simp add: c2_def upd_block_def)
              from create_input_queue[OF ci] ih c2f show ?thesis by auto
            qed
          qed
        qed
      qed
    qed
  qed
qed

lemma create_immed_queue:
  "create_immed c v = Inr (z, c') \<Longrightarrow> queue_frame c c'"
  by (auto simp: create_immed_def ir3_instr_create_def ir3_reg_create_def upd_instr_def
        upd_reg_def Let_def queue_frame_def split: option.splits)

lemma ssa_src_lookup_queue:
  assumes "ssa_src_lookup c reg src n = Inr c'"
  shows "queue_frame c c'"
proof -
  have s: "queue_frame c (set_ssa c reg)" by (simp add: set_ssa_def)
  consider "File src = TGSI_FILE_INPUT" | "File src = TGSI_FILE_OUTPUT"
    | "File src = TGSI_FILE_TEMPORARY"
    | "File src \<noteq> TGSI_FILE_INPUT \<and> File src \<noteq> TGSI_FILE_OUTPUT
         \<and> File src \<noteq> TGSI_FILE_TEMPORARY" by auto
  then show ?thesis
  proof cases
    case 1
    with assms obtain v where "c' = set_reg_instr (set_ssa c reg) reg v"
      by (auto simp: ssa_src_lookup_def split: sum.splits option.splits)
    then show ?thesis
      by (simp add: set_reg_instr_def set_ssa_def queue_frame_def)
  next
    case 2
    with assms obtain v where "c' = set_reg_instr (set_ssa c reg) reg v"
      by (auto simp: ssa_src_lookup_def split: sum.splits option.splits if_splits)
    then show ?thesis
      by (simp add: set_reg_instr_def set_ssa_def queue_frame_def)
  next
    case 3
    with assms obtain b v c2 where bt: "block_temporary (set_ssa c reg) b n = Inr (v, c2)"
      and c3: "c' = set_reg_instr c2 reg v"
      by (auto simp: ssa_src_lookup_def split: sum.splits option.splits)
    from block_temporary_frame[OF bt] block_temporary_queue[OF bt]
    have "queue_frame (set_ssa c reg) c2" by (simp add: queue_frame_def)
    with s have "queue_frame c c2" by (rule queue_frame_trans)
    then show ?thesis by (simp add: c3 set_reg_instr_def queue_frame_def)
  next
    case 4
    with assms show ?thesis by (simp add: ssa_src_lookup_def)
  qed
qed

lemma ssa_src_queue:
  assumes "ssa_src c reg src chan = Inr c'"
  shows "queue_frame c c'"
proof -
  from assms obtain c3 where lk: "ssa_src_lookup c reg src (regid (Index src) chan) = Inr c3"
    by (auto simp: ssa_src_def split: sum.splits)
  note q3 = ssa_src_lookup_queue[OF lk]
  show ?thesis
  proof (cases "IR3_REG_SSA \<in> flags (get_reg c3 reg) \<and> instr (get_reg c3 reg) = None")
    case True
    with assms lk obtain z c4 where ci: "create_immed c3 0 = Inr (z, c4)"
      and c': "c' = set_reg_instr c4 reg (Some z)"
      by (auto simp: ssa_src_def split: sum.splits)
    from create_immed_queue[OF ci] have "queue_frame c3 c'"
      by (simp add: c' set_reg_instr_def queue_frame_def)
    with q3 show ?thesis by (rule queue_frame_trans)
  next
    case False
    with assms lk have "c' = c3" by (auto simp: ssa_src_def)
    with q3 show ?thesis by simp
  qed
qed

lemma add_src_reg_queue:
  assumes "add_src_reg c ins src chan = Inr (r, c')"
  shows "queue_frame c c'"
proof -
  define c2 where "c2 = upd_reg (snd (ir3_reg_create c ins
      (regid (Index src + base_reg c (File src)) chan) (src_flags c src)))
      (fst (ir3_reg_create c ins
      (regid (Index src + base_reg c (File src)) chan) (src_flags c src))) (\<lambda>x. x\<lparr>wrmask := 1\<rparr>)"
  have q2: "queue_frame c c2"
    by (simp add: c2_def queue_frame_def ir3_reg_create_def upd_reg_def upd_instr_def)
  from assms have "ssa_src c2 (ins, length (regs (shader_instrs c ! ins))) src chan = Inr c'"
    by (auto simp: add_src_reg_def add_src_reg_wrmask_def Let_def c2_def ir3_reg_create_def
          split: if_splits sum.splits prod.splits)
  from ssa_src_queue[OF this] q2 show ?thesis by (blast intro: queue_frame_trans)
qed

lemma vectorize_attach_queue:
  assumes "vectorize_attach ins c a = Inr c'"
  shows "queue_frame c c'"
proof -
  from assms obtain r c2 where
    c2: "queue_frame c c2"
    and c': "c' = (let ctx3 = upd_reg c2 r (\<lambda>x. x\<lparr>flags := flags x \<union> (snd a - {IR3_REG_NEGATE})\<rparr>)
           in (if IR3_REG_NEGATE \<in> snd a
                   then upd_reg ctx3 r
                          (\<lambda>x. x\<lparr>flags := (if IR3_REG_NEGATE \<in> flags x
                                            then flags x - {IR3_REG_NEGATE}
                                            else insert IR3_REG_NEGATE (flags x))\<rparr>)
                   else ctx3))"
    by (auto simp: vectorize_attach_def ir3_reg_create_def Let_def
          split: if_splits sum.splits vec_arg.splits prod.splits
          dest: add_src_reg_queue
          intro: queue_frame_trans[OF queue_frame_reg_create[unfolded ir3_reg_create_def snd_conv]
                   queue_frame_upd_reg])
  have "queue_frame c2 c'"
    by (simp add: c' Let_def queue_frame_def upd_reg_def upd_instr_def)
  with c2 show ?thesis by (rule queue_frame_trans)
qed

lemma vectorize_fixup_queue:
  assumes "vectorize_fixup cur i c ja = Inr c'"
  shows "queue_frame c c'"
  using assms
  by (auto simp: vectorize_fixup_def split: prod.splits if_splits vec_arg.splits
        dest: ssa_src_queue)

lemma instr_create_atomic:
  "atomic c \<Longrightarrow> instr_create c cat op = Inr (k, c') \<Longrightarrow>
     output_updates c' = output_updates c \<and> shader_blocks c' = shader_blocks c \<and> atomic c'"
  by (auto simp: instr_create_def instr_finish_def ir3_instr_create_def Let_def
        split: option.splits)

lemma instr_clone_atomic:
  "atomic c \<Longrightarrow> instr_clone c i = (k, c') \<Longrightarrow>
     output_updates c' = output_updates c \<and> shader_blocks c' = shader_blocks c \<and> atomic c'"
  by (auto simp: instr_clone_def instr_finish_def ir3_instr_clone_def Let_def)

lemma add_dst_reg_atomic:
  "atomic c \<Longrightarrow> add_dst_reg c ins d chan = Inr (r, c') \<Longrightarrow> queue_frame c c'"
  by (auto simp: add_dst_reg_def add_dst_reg_wrmask_def ir3_reg_create_def Let_def
        upd_reg_def upd_instr_def queue_frame_def split: if_splits)

lemma ssa_dst_queue:
  "ssa_dst c cur d i = Inr c' \<Longrightarrow>
     atomic c' = atomic c \<and> shader_blocks c' = shader_blocks c
   \<and> (\<exists>new. output_updates c' = output_updates c @ new)"
  by (auto simp: ssa_dst_def Let_def split: if_splits option.splits)

text \<open>What holds of a context while the group is open.\<close>

lemma group_step_invariant:
  assumes "group_step c c'" and "atomic c"
  shows "atomic c'
     \<and> map temporaries (shader_blocks c') = map temporaries (shader_blocks c)
     \<and> map outputs (shader_blocks c') = map outputs (shader_blocks c)
     \<and> (\<exists>new. output_updates c' = output_updates c @ new)"
  using assms
proof (induction rule: group_step.induct)
  case (finish c)
  then show ?case by (simp add: instr_finish_def)
next
  case (create c cat op k c')
  from instr_create_atomic[OF create(2,1)] show ?case by simp
next
  case (clone c i k c')
  from instr_clone_atomic[OF clone(2,1)] show ?case by simp
next
  case (dst c ins d chan r c')
  from add_dst_reg_atomic[OF dst(2,1)] dst(2) show ?case by (simp add: queue_frame_def)
next
  case (attach ins c a c')
  from vectorize_attach_queue[OF attach(1)] attach(2) show ?case by (simp add: queue_frame_def)
next
  case (queue c cur d i c')
  from ssa_dst_queue[OF queue(1)] queue(2) show ?case by auto
next
  case (fix_dst c reg f)
  then show ?case by (simp add: upd_reg_def upd_instr_def)
next
  case (fix_src cur i c ja c')
  from vectorize_fixup_queue[OF fix_src(1)] fix_src(2) show ?case by (simp add: queue_frame_def)
qed

lemma group_invariant:
  assumes "rtranclp group_step c c'" and "atomic c"
  shows "atomic c'
     \<and> map temporaries (shader_blocks c') = map temporaries (shader_blocks c)
     \<and> map outputs (shader_blocks c') = map outputs (shader_blocks c)
     \<and> (\<exists>new. output_updates c' = output_updates c @ new)"
  using assms
proof (induction rule: rtranclp_induct)
  case base
  then show ?case by simp
next
  case (step y z)
  from step(3)[OF step(4)] have y: "atomic y"
     "map temporaries (shader_blocks y) = map temporaries (shader_blocks c)"
     "map outputs (shader_blocks y) = map outputs (shader_blocks c)"
     "\<exists>new. output_updates y = output_updates c @ new" by auto
  from group_step_invariant[OF step(2) y(1)] y show ?case by auto
qed

lemma same_slots:
  assumes "map temporaries bs' = map temporaries bs" "map outputs bs' = map outputs bs"
    and "slot_valid bs p"
  shows "slot_valid bs' p \<and> slot_value bs' p = slot_value bs p"
proof -
  from assms(1) have len: "length bs' = length bs" by (metis length_map)
  show ?thesis
  proof (cases p)
    case (Output_slot b n)
    with assms(3) have b: "b < length bs" by simp
    have "outputs (bs' ! b) = outputs (bs ! b)"
      using nth_map[of b bs' outputs] nth_map[of b bs outputs] assms(2) b len by simp
    with assms(3) Output_slot len show ?thesis by simp
  next
    case (Temporary_slot b n)
    with assms(3) have b: "b < length bs" by simp
    have "temporaries (bs' ! b) = temporaries (bs ! b)"
      using nth_map[of b bs' temporaries] nth_map[of b bs temporaries] assms(1) b len by simp
    with assms(3) Temporary_slot len show ?thesis by simp
  qed
qed

lemma for_loop_steps:
  assumes "\<And>s a s'. body s a = Inr s' \<Longrightarrow> rtranclp group_step s s'"
    and "for_loop body xs s = Inr s'"
  shows "rtranclp group_step s s'"
  using assms(2)
proof (induction xs arbitrary: s)
  case Nil
  then show ?case by simp
next
  case (Cons a xs)
  then obtain s1 where b: "body s a = Inr s1" and r: "for_loop body xs s1 = Inr s'"
    by (auto split: sum.splits)
  from assms(1)[OF b] Cons.IH[OF r] show ?case by simp
qed

lemma vectorize_body_steps:
  assumes "vectorize_body ins dst args (n, c) i = Inr (n', c')"
  shows "rtranclp group_step c c'"
proof (cases "WriteMask dst AND push_bit i 1 \<noteq> 0")
  case False
  with assms show ?thesis by (simp add: vectorize_body_def)
next
  case True
  obtain cur c1 where cl: "(if n = 0 then (ins, c) else instr_clone c ins) = (cur, c1)"
    by (cases "if n = 0 then (ins, c) else instr_clone c ins")
  from assms True cl obtain c2 where sd: "ssa_dst c1 cur dst i = Inr c2"
    and fx: "for_loop (vectorize_fixup cur i) (enumerate 0 args)
               (upd_reg c2 (cur, 0) (\<lambda>x. x\<lparr>num := regid (drop_bit 2 (num x)) i\<rparr>)) = Inr c'"
    by (auto simp: vectorize_body_def split: sum.splits)
  have s1: "rtranclp group_step c c1"
  proof (cases "n = 0")
    case True
    with cl show ?thesis by simp
  next
    case False
    with cl have "instr_clone c ins = (cur, c1)" by simp
    then show ?thesis by (intro r_into_rtranclp group_step.clone)
  qed
  have s2: "group_step c1 c2" using sd by (rule group_step.queue)
  have s3: "group_step c2 (upd_reg c2 (cur, 0) (\<lambda>x. x\<lparr>num := regid (drop_bit 2 (num x)) i\<rparr>))"
    by (rule group_step.fix_dst)
  have s4: "rtranclp group_step
              (upd_reg c2 (cur, 0) (\<lambda>x. x\<lparr>num := regid (drop_bit 2 (num x)) i\<rparr>)) c'"
    using fx by (rule for_loop_steps[rotated]) (intro r_into_rtranclp group_step.fix_src)
  from s1 s2 s3 s4 show ?thesis by simp
qed

lemma vectorize_loop_steps:
  assumes "for_loop (vectorize_body ins dst args) is (n, c) = Inr (n', c')"
  shows "rtranclp group_step c c'"
  using assms
proof (induction "is" arbitrary: n c)
  case Nil
  then show ?case by simp
next
  case (Cons i "is")
  then obtain n1 c1 where b: "vectorize_body ins dst args (n, c) i = Inr (n1, c1)"
    and r: "for_loop (vectorize_body ins dst args) is (n1, c1) = Inr (n', c')"
    by (auto split: sum.splits)
  from vectorize_body_steps[OF b] Cons.IH[OF r] show ?case by simp
qed

lemma vectorize_steps:
  assumes "vectorize ctx ins dst args = Inr c'"
  shows "\<exists>g. rtranclp group_step (instr_atomic_start ctx) g \<and> c' = instr_atomic_end g"
proof -
  from assms obtain r c1 c2 n g where
    a: "add_dst_reg (instr_atomic_start ctx) ins dst TGSI_SWIZZLE_X = Inr (r, c1)"
    and b: "for_loop (vectorize_attach ins) args c1 = Inr c2"
    and c: "for_loop (vectorize_body ins dst args) [0..<4] (0, c2) = Inr (n, g)"
    and e: "c' = instr_atomic_end g"
    by (auto simp: vectorize_def split: sum.splits)
  have s1: "group_step (instr_atomic_start ctx) c1" using a by (rule group_step.dst)
  have s2: "rtranclp group_step c1 c2"
    using b by (rule for_loop_steps[rotated]) (intro r_into_rtranclp group_step.attach)
  have "rtranclp group_step (instr_atomic_start ctx) g"
    using s1 s2 vectorize_loop_steps[OF c]
    by (meson converse_rtranclp_into_rtranclp rtranclp_trans)
  with e show ?thesis by blast
qed

text \<open>
  Claim C3. \<^verbatim>\<open>instr_atomic_start\<close> sets the atomic flag and touches neither the queue of
  deferred writes nor a slot. In every state \<open>g\<close> of the group that it opens, the flag is
  still set, \<^verbatim>\<open>instr_finish\<close> changes nothing, \<^verbatim>\<open>instr_create\<close> and \<^verbatim>\<open>instr_clone\<close> leave
  the queue and the blocks as they are, the queue has at most grown by the writes of the
  group, and every temporary and output slot holds the value it had before the group:
  what an instruction of the group resolves is what was live before the group. At the
  end of the group \<^verbatim>\<open>instr_atomic_end\<close> leaves the atomic mode, empties the queue, and
  every slot then holds the value that was queued for it last (a slot for which nothing
  was queued keeps its value): the writes are committed all at once. Every run of
  \<^verbatim>\<open>vectorize\<close> that returns is such a group, closed by \<^verbatim>\<open>instr_atomic_end\<close>.
\<close>

theorem atomic_group_defers_writes:
  "atomic (instr_atomic_start ctx)
   \<and> output_updates (instr_atomic_start ctx) = output_updates ctx
   \<and> shader_blocks (instr_atomic_start ctx) = shader_blocks ctx
   \<and> (\<forall>g. rtranclp group_step (instr_atomic_start ctx) g \<longrightarrow>
          atomic g \<and> instr_finish g = g
        \<and> (\<forall>cat op k g'. instr_create g cat op = Inr (k, g') \<longrightarrow>
             output_updates g' = output_updates g \<and> shader_blocks g' = shader_blocks g
               \<and> atomic g')
        \<and> (\<forall>i k g'. instr_clone g i = (k, g') \<longrightarrow>
             output_updates g' = output_updates g \<and> shader_blocks g' = shader_blocks g
               \<and> atomic g')
        \<and> (\<exists>new. output_updates g = output_updates ctx @ new)
        \<and> (\<forall>p. slot_valid (shader_blocks ctx) p \<longrightarrow>
               slot_valid (shader_blocks g) p
             \<and> slot_value (shader_blocks g) p = slot_value (shader_blocks ctx) p
             \<and> slot_value (shader_blocks (instr_atomic_end g)) p
                 = (case map_of (rev (output_updates g)) p of
                      Some v \<Rightarrow> Some v
                    | None \<Rightarrow> slot_value (shader_blocks ctx) p))
        \<and> output_updates (instr_atomic_end g) = []
        \<and> \<not> atomic (instr_atomic_end g))
   \<and> (\<forall>ins dst args c'. vectorize ctx ins dst args = Inr c' \<longrightarrow>
        (\<exists>g. rtranclp group_step (instr_atomic_start ctx) g \<and> c' = instr_atomic_end g))"
proof -
  have st: "atomic (instr_atomic_start ctx)"
    "output_updates (instr_atomic_start ctx) = output_updates ctx"
    "shader_blocks (instr_atomic_start ctx) = shader_blocks ctx"
    by (simp_all add: instr_atomic_start_def)
  have grp: "atomic g \<and> instr_finish g = g
        \<and> (\<forall>cat op k g'. instr_create g cat op = Inr (k, g') \<longrightarrow>
             output_updates g' = output_updates g \<and> shader_blocks g' = shader_blocks g
               \<and> atomic g')
        \<and> (\<forall>i k g'. instr_clone g i = (k, g') \<longrightarrow>
             output_updates g' = output_updates g \<and> shader_blocks g' = shader_blocks g
               \<and> atomic g')
        \<and> (\<exists>new. output_updates g = output_updates ctx @ new)
        \<and> (\<forall>p. slot_valid (shader_blocks ctx) p \<longrightarrow>
               slot_valid (shader_blocks g) p
             \<and> slot_value (shader_blocks g) p = slot_value (shader_blocks ctx) p
             \<and> slot_value (shader_blocks (instr_atomic_end g)) p
                 = (case map_of (rev (output_updates g)) p of
                      Some v \<Rightarrow> Some v
                    | None \<Rightarrow> slot_value (shader_blocks ctx) p))
        \<and> output_updates (instr_atomic_end g) = []
        \<and> \<not> atomic (instr_atomic_end g)"
    if r: "rtranclp group_step (instr_atomic_start ctx) g" for g
  proof -
    from group_invariant[OF r st(1)] st(2,3)
    have inv: "atomic g"
      "map temporaries (shader_blocks g) = map temporaries (shader_blocks ctx)"
      "map outputs (shader_blocks g) = map outputs (shader_blocks ctx)"
      "\<exists>new. output_updates g = output_updates ctx @ new" by auto
    have a: "instr_finish g = g" using inv(1) by (simp add: instr_finish_def)
    have b: "output_updates g' = output_updates g \<and> shader_blocks g' = shader_blocks g
               \<and> atomic g'" if "instr_create g cat op = Inr (k, g')" for cat op k g'
      using instr_create_atomic[OF inv(1) that] .
    have c: "output_updates g' = output_updates g \<and> shader_blocks g' = shader_blocks g
               \<and> atomic g'" if "instr_clone g i = (k, g')" for i k g'
      using instr_clone_atomic[OF inv(1) that] .
    have d: "output_updates (instr_atomic_end g) = []" "\<not> atomic (instr_atomic_end g)"
      by (simp_all add: instr_atomic_end_def instr_finish_def)
    have e: "slot_valid (shader_blocks g) p
             \<and> slot_value (shader_blocks g) p = slot_value (shader_blocks ctx) p
             \<and> slot_value (shader_blocks (instr_atomic_end g)) p
                 = (case map_of (rev (output_updates g)) p of
                      Some v \<Rightarrow> Some v
                    | None \<Rightarrow> slot_value (shader_blocks ctx) p)"
      if v: "slot_valid (shader_blocks ctx) p" for p
    proof -
      note s = same_slots[OF inv(2,3) v]
      from s have vg: "slot_valid (shader_blocks g) p" by simp
      show ?thesis
        using foldl_apply_update_value[OF vg, of "output_updates g"] s
        by (simp add: instr_atomic_end_def instr_finish_def split: option.splits)
    qed
    show ?thesis using inv(1,4) a b c d e by blast
  qed
  have vec: "\<exists>g. rtranclp group_step (instr_atomic_start ctx) g \<and> c' = instr_atomic_end g"
    if "vectorize ctx ins dst args = Inr c'" for ins dst args c'
    using vectorize_steps[OF that] .
  show ?thesis using st grp vec by blast
qed


theorem atomic_group_defers_writes_witness:
  "\<exists>g. rtranclp group_step (instr_atomic_start add_f_ctx) g
       \<and> vectorize add_f_ctx 0 (temp_dst 1 15) add_f_args = Inr (instr_atomic_end g)
       \<and> atomic g \<and> instr_finish g = g
       \<and> map (slot_value (shader_blocks g))
           [Temporary_slot 0 4, Temporary_slot 0 5, Temporary_slot 0 6, Temporary_slot 0 7]
           = [None, None, None, None]
       \<and> map (slot_value (shader_blocks (instr_atomic_end g)))
           [Temporary_slot 0 4, Temporary_slot 0 5, Temporary_slot 0 6, Temporary_slot 0 7]
           = [Some 0, Some 5, Some 8, Some 11]
       \<and> output_updates (instr_atomic_end g) = []"
proof -
  have "(case vectorize add_f_ctx 0 (temp_dst 1 15) add_f_args of
           Inl e \<Rightarrow> False
         | Inr c \<Rightarrow>
             map (slot_value (shader_blocks c))
               [Temporary_slot 0 4, Temporary_slot 0 5, Temporary_slot 0 6, Temporary_slot 0 7]
               = [Some 0, Some 5, Some 8, Some 11])"
    by code_simp
  then obtain c' where v: "vectorize add_f_ctx 0 (temp_dst 1 15) add_f_args = Inr c'"
    and val: "map (slot_value (shader_blocks c'))
               [Temporary_slot 0 4, Temporary_slot 0 5, Temporary_slot 0 6, Temporary_slot 0 7]
               = [Some 0, Some 5, Some 8, Some 11]"
    by (auto split: sum.splits)
  note t = atomic_group_defers_writes[of add_f_ctx]
  from t v obtain g where g: "rtranclp group_step (instr_atomic_start add_f_ctx) g"
    "c' = instr_atomic_end g" by blast
  from t g(1) have a: "atomic g" "instr_finish g = g" "output_updates (instr_atomic_end g) = []"
    by blast+
  have sv: "slot_valid (shader_blocks add_f_ctx) (Temporary_slot 0 4)"
    "slot_valid (shader_blocks add_f_ctx) (Temporary_slot 0 5)"
    "slot_valid (shader_blocks add_f_ctx) (Temporary_slot 0 6)"
    "slot_valid (shader_blocks add_f_ctx) (Temporary_slot 0 7)"
    by code_simp+
  have old: "map (slot_value (shader_blocks add_f_ctx))
           [Temporary_slot 0 4, Temporary_slot 0 5, Temporary_slot 0 6, Temporary_slot 0 7]
           = [None, None, None, None]"
    by code_simp
  have same: "slot_value (shader_blocks g) p = slot_value (shader_blocks add_f_ctx) p"
    if "slot_valid (shader_blocks add_f_ctx) p" for p
    using t g(1) that by blast
  have "map (slot_value (shader_blocks g))
           [Temporary_slot 0 4, Temporary_slot 0 5, Temporary_slot 0 6, Temporary_slot 0 7]
           = map (slot_value (shader_blocks add_f_ctx))
           [Temporary_slot 0 4, Temporary_slot 0 5, Temporary_slot 0 6, Temporary_slot 0 7]"
    unfolding list.map same[OF sv(1)] same[OF sv(2)] same[OF sv(3)] same[OF sv(4)] ..
  with old have gs: "map (slot_value (shader_blocks g))
           [Temporary_slot 0 4, Temporary_slot 0 5, Temporary_slot 0 6, Temporary_slot 0 7]
           = [None, None, None, None]"
    by (simp only:)
  from v g(2) have v': "vectorize add_f_ctx 0 (temp_dst 1 15) add_f_args = Inr (instr_atomic_end g)"
    by (simp only:)
  from val g(2) have val': "map (slot_value (shader_blocks (instr_atomic_end g)))
           [Temporary_slot 0 4, Temporary_slot 0 5, Temporary_slot 0 6, Temporary_slot 0 7]
           = [Some 0, Some 5, Some 8, Some 11]"
    by (simp only:)
  from g(1) v' a(1,2) gs val' a(3) show ?thesis
    by (intro exI[of _ g] conjI)
qed

subsection \<open>The branch stack\<close>

text \<open>
  Claim C9 at its failing input. Sixteen conditionals may be open at once; the
  seventeenth \<^verbatim>\<open>push_branch\<close> stores to \<^verbatim>\<open>branch[16]\<close>, one past the end of the array,
  and no compile error is raised: \<^verbatim>\<open>push_branch\<close> has no check at all.
\<close>

theorem push_branch_past_capacity:
  "(case for_loop push_branch [0..<16] vs_ctx of
      Inl e \<Rightarrow> False
    | Inr c \<Rightarrow>
        branch_count c = 16 \<and> length (branch c) = BRANCH_SIZE
        \<and> (case push_branch c 16 of Inl e \<Rightarrow> e = Undefined_behaviour | Inr c' \<Rightarrow> False))"
  by code_simp

subsection \<open>Fan-in nodes\<close>



















text \<open>The hypothesis that component x is selected is needed. For \<open>i = 0\<close> the test of the
  placeholder, \<^verbatim>\<open>wrmask & ~((i << i) - 1)\<close>, is \<^verbatim>\<open>wrmask & 0\<close>: a read that selects y and z
  only (\<^verbatim>\<open>wrmask = 0x6\<close>, a mask that no caller passes) builds a node with two sources
  and no placeholder for x, while with x and z selected (\<^verbatim>\<open>wrmask = 0x5\<close>) the
  placeholder for y is there.\<close>

lemma add_src_reg_wrmask_unselected_x:
  "(case instr_create vs_ctx 5 OPC_SAM of
      Inl e \<Rightarrow> False
    | Inr (k, c1) \<Rightarrow>
        (case add_src_reg_wrmask c1 k (temp_src 0) 0 6 of
           Inl e \<Rightarrow> False
         | Inr (r, c2) \<Rightarrow>
             instr (get_reg c2 r) = Some 1 \<and> opc (shader_instrs c2 ! 1) = OPC_META_FI
             \<and> map (\<lambda>x. IR3_REG_SSA \<in> flags x) (regs (shader_instrs c2 ! 1))
                 = [False, True, True])
        \<and> (case add_src_reg_wrmask c1 k (temp_src 0) 0 5 of
             Inl e \<Rightarrow> False
           | Inr (r, c2) \<Rightarrow>
               instr (get_reg c2 r) = Some 1 \<and> opc (shader_instrs c2 ! 1) = OPC_META_FI
               \<and> map (\<lambda>x. IR3_REG_SSA \<in> flags x) (regs (shader_instrs c2 ! 1))
                   = [False, True, False, True]))"
  by code_simp

subsection \<open>Phi nodes at ENDIF\<close>

text \<open>A conditional without an else branch: the temporary written in the then branch
  is merged by a phi node (instruction 8) whose operands are the flow marker
  (instruction 3), the block output node of the then branch (instruction 6, which
  forwards the move, instruction 4) and the value of the enclosing block, here the
  substitute for an undefined value (instruction 7).\<close>

lemma trans_endif_without_else:
  "(case for_loop compile_instruction [tgsi_if, tgsi_mov, tgsi_endif] vs_ctx of
      Inl e \<Rightarrow> False
    | Inr c \<Rightarrow>
        block c = Some 0 \<and> temporaries (shader_blocks c ! 0) ! 4 = Some 8
        \<and> opc (shader_instrs c ! 8) = OPC_META_PHI
        \<and> map (operand_instr c 8) [1, 2, 3] = [Some 3, Some 6, Some 7]
        \<and> opc (shader_instrs c ! 3) = OPC_META_FLOW
        \<and> opc (shader_instrs c ! 6) = OPC_META_OUTPUT \<and> operand_instr c 6 1 = Some 4
        \<and> is_zero_immed (shader_instrs c ! 7))"
  by code_simp

text \<open>
  Claim C1 at its failing input. With an else branch that does not write the
  temporary, \<^verbatim>\<open>trans_endif\<close> counts no output for the else block, allocates \<^verbatim>\<open>elseout\<close>
  with no entry, and then stores \<^verbatim>\<open>elseout[0] = b\<close> for the slot written in the then
  branch: a store outside the allocation, before any phi node is built.
\<close>

theorem trans_endif_else_overflow:
  "(case for_loop compile_instruction [tgsi_if, tgsi_mov, tgsi_else] vs_ctx of
      Inl e \<Rightarrow> False
    | Inr c \<Rightarrow>
        block c = Some 2 \<and> branch_count c = 1
        \<and> count_written (temporaries (shader_blocks c ! 1)) = 1
        \<and> count_written (temporaries (shader_blocks c ! 2)) = 0
        \<and> count_written (outputs (shader_blocks c ! 2)) = 0
        \<and> (case trans_endif c of Inl e \<Rightarrow> e = Undefined_behaviour | Inr c' \<Rightarrow> False))"
  by code_simp

end
